theory Spec2Isabelle
  imports Complex_Main "HOL-Library.Word" "HOL-Library.Log_Nat"
begin

section \<open>JavaScript strings\<close>

text \<open>
  A JavaScript string is a sequence of 16-bit code units; \<open>length\<close> counts code units,
  and a code unit in \<open>0xD800..0xDFFF\<close> that is not part of a lead/trail pair is allowed.
  Literals of the source are written with \<open>js\<close>; characters outside ASCII are written
  as their code units.
\<close>

type_synonym code_unit = "16 word"
type_synonym jsstring = "code_unit list"

definition js :: "string \<Rightarrow> jsstring" where
  "js s = map of_char s"

datatype js_error = URIError | TypeError

subsection \<open>The built-in \<open>encodeURIComponent\<close>\<close>

text \<open>
  \<open>encodeURIComponent\<close> follows the abstract operation \<open>Encode\<close> of ECMA-262 with the
  unescaped set \<open>A-Z a-z 0-9 - _ . ! ~ * ' ( )\<close>: a code unit of the set is copied, any
  other code point is written as the percent-escapes of its UTF-8 octets (upper-case
  hexadecimal), and an unpaired surrogate throws \<open>URIError\<close>.
\<close>

definition uriUnescaped :: "code_unit \<Rightarrow> bool" where
  "uriUnescaped c \<longleftrightarrow>
     (0x41 \<le> c \<and> c \<le> 0x5A) \<or> (0x61 \<le> c \<and> c \<le> 0x7A) \<or> (0x30 \<le> c \<and> c \<le> 0x39) \<or>
     c \<in> set (js ''-_.!~*'' @ [0x27] @ js ''()'')"

definition utf8 :: "nat \<Rightarrow> nat list" where
  "utf8 cp =
     (if cp < 0x80 then [cp]
      else if cp < 0x800 then [0xC0 + cp div 0x40, 0x80 + cp mod 0x40]
      else if cp < 0x10000 then
        [0xE0 + cp div 0x1000, 0x80 + (cp div 0x40) mod 0x40, 0x80 + cp mod 0x40]
      else
        [0xF0 + cp div 0x40000, 0x80 + (cp div 0x1000) mod 0x40,
         0x80 + (cp div 0x40) mod 0x40, 0x80 + cp mod 0x40])"

definition hexDigit :: "nat \<Rightarrow> code_unit" where
  "hexDigit d = (if d < 10 then 0x30 + of_nat d else 0x41 + of_nat (d - 10))"

definition percent :: "nat \<Rightarrow> jsstring" where
  "percent octet = [0x25, hexDigit (octet div 16), hexDigit (octet mod 16)]"

definition isLead :: "code_unit \<Rightarrow> bool" where
  "isLead c \<longleftrightarrow> 0xD800 \<le> c \<and> c \<le> 0xDBFF"

definition isTrail :: "code_unit \<Rightarrow> bool" where
  "isTrail c \<longleftrightarrow> 0xDC00 \<le> c \<and> c \<le> 0xDFFF"

definition pairCodePoint :: "code_unit \<Rightarrow> code_unit \<Rightarrow> nat" where
  "pairCodePoint lead trail =
     (unat lead - 0xD800) * 0x400 + (unat trail - 0xDC00) + 0x10000"

fun Encode :: "jsstring \<Rightarrow> js_error + jsstring" where
  "Encode [] = Inr []"
| "Encode (c # cs) =
     (if uriUnescaped c then map_sum id ((#) c) (Encode cs)
      else if \<not> isLead c \<and> \<not> isTrail c then
        map_sum id ((@) (concat (map percent (utf8 (unat c))))) (Encode cs)
      else if isTrail c then Inl URIError
      else (case cs of
              [] \<Rightarrow> Inl URIError
            | d # ds \<Rightarrow>
                if isTrail d then
                  map_sum id ((@) (concat (map percent (utf8 (pairCodePoint c d)))))
                    (Encode ds)
                else Inl URIError))"

definition encodeURIComponent :: "jsstring \<Rightarrow> js_error + jsstring" where
  "encodeURIComponent s = Encode s"

text \<open>\<open>String.prototype.isWellFormed\<close>: no unpaired surrogate.\<close>

fun isWellFormed :: "jsstring \<Rightarrow> bool" where
  "isWellFormed [] = True"
| "isWellFormed (c # cs) =
     (if isTrail c then False
      else if isLead c then
        (case cs of [] \<Rightarrow> False | d # ds \<Rightarrow> isTrail d \<and> isWellFormed ds)
      else isWellFormed cs)"

subsection \<open>Numbers in template literals, \<open>substr\<close>\<close>

text \<open>
  \<open>Date.now()\<close> is an integral number of milliseconds below \<open>10^21\<close> in magnitude, which
  a template literal prints in plain decimal notation.
\<close>

fun decimal :: "nat \<Rightarrow> jsstring" where
  "decimal n =
     (if n < 10 then [0x30 + of_nat n]
      else decimal (n div 10) @ [0x30 + of_nat (n mod 10)])"

declare decimal.simps [simp del]

definition Number_toString :: "int \<Rightarrow> jsstring" where
  "Number_toString i = (if i < 0 then js ''-'' @ decimal (nat (- i)) else decimal (nat i))"

definition substr :: "nat \<Rightarrow> nat \<Rightarrow> jsstring \<Rightarrow> jsstring" where
  "substr start len s = take len (drop start s)"

section \<open>JavaScript numbers\<close>

text \<open>
  A number is an IEEE 754 double; a double is a real that rounding leaves fixed. The
  product of two doubles is the real product rounded to the nearest double, ties to the
  even significand: a positive \<open>y\<close> with \<open>2^k \<le> y < 2^(k+1)\<close> lies among doubles that
  are \<open>2^(k-52)\<close> apart (\<open>2^-1074\<close> apart below \<open>2^-1022\<close>, the subnormal range), and is
  rounded to the nearest multiple of that spacing. Magnitudes from \<open>2^1024\<close> on, where
  a double overflows to infinity, do not arise: the only product is that of a random
  number below 1 with 500.
\<close>

definition round_half_even :: "real \<Rightarrow> int" where
  "round_half_even z =
     (let f = \<lfloor>z\<rfloor>; d = z - of_int f
      in if d < 1 / 2 then f
         else if 1 / 2 < d then f + 1
         else if even f then f else f + 1)"

definition binade :: "real \<Rightarrow> int" where
  "binade y = (if 1 \<le> y then bitlen \<lfloor>y\<rfloor> - 1 else - bitlen (\<lceil>1 / y\<rceil> - 1))"

definition ulp :: "real \<Rightarrow> real" where
  "ulp y = 2 powi (max (binade y) (- 1022) - 52)"

definition round_to_double :: "real \<Rightarrow> real" where
  "round_to_double y =
     (if y < 0 then - (ulp (- y) * of_int (round_half_even (- y / ulp (- y))))
      else ulp y * of_int (round_half_even (y / ulp y)))"

section \<open>The form schema\<close>

text \<open>
  \<open>generateFormSchema\<close>: \<open>url\<close> is a string of at least 1 code unit, \<open>prompt\<close> a string of
  at least 3 and at most 160 code units. An issue carries the field, the kind of the
  failed check and the message given in the schema (\<open>None\<close>: the library's default
  message, as for \<open>max(160)\<close>).
\<close>

record GenerateFormValues =
  url :: jsstring
  prompt :: jsstring

datatype field = Url | Prompt

datatype issue_code = Too_small | Too_big

record issue =
  path :: field
  code :: issue_code
  message :: "jsstring option"

definition generateFormSchema :: "GenerateFormValues \<Rightarrow> issue list" where
  "generateFormSchema v =
     (if length (url v) < 1
      then [\<lparr>path = Url, code = Too_small, message = Some (js ''URL is required'')\<rparr>]
      else []) @
     (if length (prompt v) < 3
      then [\<lparr>path = Prompt, code = Too_small,
             message = Some (js ''Prompt must be at least 3 characters'')\<rparr>]
      else []) @
     (if length (prompt v) > 160
      then [\<lparr>path = Prompt, code = Too_big, message = None\<rparr>]
      else [])"

text \<open>
  \<open>form.handleSubmit(onValid)\<close> of the form library runs the resolver on the current
  values; with issues it stores them as the form's errors and does not call \<open>onValid\<close>;
  without issues it calls \<open>onValid\<close> with the parsed values.
\<close>

definition form_handleSubmit ::
  "(GenerateFormValues \<Rightarrow> 'a) \<Rightarrow> GenerateFormValues \<Rightarrow> issue list + 'a" where
  "form_handleSubmit onValid v =
     (case generateFormSchema v of
        [] \<Rightarrow> Inr (onValid v)
      | i # is \<Rightarrow> Inl (i # is))"

section \<open>The component state and what the page does to its surroundings\<close>

record QrGenerateResponse =
  image_url :: jsstring
  model_latency_ms :: real
  qr_id :: jsstring

datatype toast = Toast_success jsstring | Toast_error jsstring

text \<open>
  A call of \<open>handleSubmit\<close> that waits at its \<open>await\<close> holds the response it has built
  and the submitted values.
\<close>

datatype suspended = Suspended QrGenerateResponse GenerateFormValues

text \<open>
  The first four fields are the \<open>useState\<close> cells of \<open>Body\<close>, the next three the state
  of the form, \<open>pending\<close> the calls of \<open>handleSubmit\<close> waiting for their timer, and the
  rest a log of the effects on the surroundings: notifications, calls of
  \<open>navigator.clipboard.writeText\<close>, the text on the clipboard, rejected promises that
  nothing handles, and calls of \<open>downloadQrCode\<close>.

  State updates made in one synchronous run of a handler are committed together (the
  framework batches them into one render), so a value of this record is the state at a
  point where control is back with the event loop.
\<close>

record page =
  isLoading :: bool
  error :: "jsstring option"
  response :: "QrGenerateResponse option"
  submittedURL :: "jsstring option"
  form_values :: GenerateFormValues
  form_errors :: "issue list"
  form_isValid :: bool
  pending :: "suspended list"
  toasts :: "toast list"
  writeText_calls :: "jsstring list"
  clipboard_text :: "jsstring option"
  unhandled_rejections :: nat
  downloads :: "(jsstring \<times> jsstring) list"

definition promptSuggestions :: "jsstring list" where
  "promptSuggestions =
     [js ''A city view with clouds'', js ''A beautiful glacier'',
      js ''A forest overlooking a mountain'', js ''A saharan desert'']"

subsection \<open>Mounting\<close>

record props =
  props_imageUrl :: "jsstring option"
  props_prompt :: "jsstring option"
  props_redirectUrl :: "jsstring option"
  props_modelLatency :: "real option"
  props_id :: "jsstring option"

definition initial :: page where
  "initial =
     \<lparr>isLoading = False, error = None, response = None, submittedURL = None,
      form_values = \<lparr>url = [], prompt = []\<rparr>, form_errors = [], form_isValid = False,
      pending = [], toasts = [], writeText_calls = [], clipboard_text = None,
      unhandled_rejections = 0, downloads = []\<rparr>"

text \<open>
  The effect of \<open>useEffect\<close> after the first render: when every property is truthy
  (a non-empty string, a number other than 0) the response and the form values are
  taken from the properties.
\<close>

definition mount :: "props \<Rightarrow> page" where
  "mount ps =
     (case (props_imageUrl ps, props_prompt ps, props_redirectUrl ps,
            props_modelLatency ps, props_id ps) of
        (Some i, Some p, Some r, Some l, Some d) \<Rightarrow>
          if i \<noteq> [] \<and> p \<noteq> [] \<and> r \<noteq> [] \<and> l \<noteq> 0 \<and> d \<noteq> []
          then initial
                 \<lparr>response := Some \<lparr>image_url = i, model_latency_ms = l, qr_id = d\<rparr>,
                  submittedURL := Some r,
                  form_values := \<lparr>url = r, prompt = p\<rparr>\<rparr>
          else initial
      | _ \<Rightarrow> initial)"

subsection \<open>Editing the form\<close>

text \<open>
  Validation of one field (mode \<open>onChange\<close>, and \<open>setValue\<close> with \<open>shouldValidate\<close>):
  the resolver runs on all values, the errors of that field are replaced and
  \<open>formState.isValid\<close> is recomputed.
\<close>

definition validate_field :: "field \<Rightarrow> page \<Rightarrow> page" where
  "validate_field f p =
     (let is = generateFormSchema (form_values p)
      in p\<lparr>form_errors := filter (\<lambda>i. path i \<noteq> f) (form_errors p) @
                            filter (\<lambda>i. path i = f) is,
           form_isValid := (is = [])\<rparr>)"

definition change_url :: "jsstring \<Rightarrow> page \<Rightarrow> page" where
  "change_url s p = validate_field Url (p\<lparr>form_values := (form_values p)\<lparr>url := s\<rparr>\<rparr>)"

definition change_prompt :: "jsstring \<Rightarrow> page \<Rightarrow> page" where
  "change_prompt s p =
     validate_field Prompt (p\<lparr>form_values := (form_values p)\<lparr>prompt := s\<rparr>\<rparr>)"

definition handleSuggestionClick :: "jsstring \<Rightarrow> page \<Rightarrow> page" where
  "handleSuggestionClick suggestion p =
     validate_field Prompt (p\<lparr>form_values := (form_values p)\<lparr>prompt := suggestion\<rparr>\<rparr>)"

subsection \<open>Submitting\<close>

text \<open>
  What \<open>handleSubmit\<close> reads from its surroundings: the two results of \<open>Math.random()\<close>
  and the clock. The first random number is a double in \<open>[0, 1)\<close>.
  The digits of \<open>Math.random().toString(36)\<close> are chosen by the engine, so the second
  random number is given as that string.
\<close>

record submit_env =
  Math_random :: real
  Date_now :: int
  Math_random_toString36 :: jsstring

definition failed_message :: jsstring where
  "failed_message = js ''Failed to generate QR code. Please try again.''"

definition generated_message :: jsstring where
  "generated_message = js ''QR Code generated successfully! '' @ [0xD83C, 0xDF89]"

definition qr_endpoint :: jsstring where
  "qr_endpoint = js ''https://api.qrserver.com/v1/create-qr-code/?size=300x300&data=''"

text \<open>
  \<open>Math.floor(Math.random() * 500) + 200\<close>: the product is rounded to a double before
  the floor is taken; the floor and the sum are integers below \<open>2^53\<close> and exact.
\<close>

definition latency :: "real \<Rightarrow> real" where
  "latency r = of_int \<lfloor>round_to_double (r * 500)\<rfloor> + 200"

definition mockResponse :: "submit_env \<Rightarrow> jsstring \<Rightarrow> QrGenerateResponse" where
  "mockResponse env encodedURL =
     \<lparr>image_url = qr_endpoint @ encodedURL,
      model_latency_ms = latency (Math_random env),
      qr_id = js ''qr-'' @ Number_toString (Date_now env) @ js ''-'' @
              substr 2 9 (Math_random_toString36 env)\<rparr>"

text \<open>
  The synchronous part of \<open>handleSubmit\<close>: the three setters, then the \<open>try\<close> block up to
  the \<open>await\<close>. When \<open>encodeURIComponent\<close> throws, \<open>catch\<close> and \<open>finally\<close> run in the same
  synchronous run and the call is over; otherwise the call is suspended on the timer.
\<close>

definition handleSubmit_sync ::
  "submit_env \<Rightarrow> GenerateFormValues \<Rightarrow> page \<Rightarrow> page \<times> suspended option" where
  "handleSubmit_sync env data p =
     (let p1 = p\<lparr>isLoading := True, error := None, response := None\<rparr>
      in case encodeURIComponent (url data) of
           Inl err \<Rightarrow>
             (p1\<lparr>error := Some failed_message,
                 toasts := toasts p1 @ [Toast_error failed_message],
                 isLoading := False\<rparr>, None)
         | Inr encodedURL \<Rightarrow> (p1, Some (Suspended (mockResponse env encodedURL) data)))"

text \<open>The rest of \<open>handleSubmit\<close>, run when the timer of 1000 ms has fired.\<close>

definition handleSubmit_resume :: "suspended \<Rightarrow> page \<Rightarrow> page" where
  "handleSubmit_resume k p =
     (case k of Suspended mock data \<Rightarrow>
        p\<lparr>response := Some mock,
          submittedURL := Some (url data),
          toasts := toasts p @ [Toast_success generated_message],
          isLoading := False\<rparr>)"

text \<open>
  One call of \<open>handleSubmit\<close> with nothing else happening on the page: the states it
  commits, in order.
\<close>

definition handleSubmit :: "submit_env \<Rightarrow> GenerateFormValues \<Rightarrow> page \<Rightarrow> page list" where
  "handleSubmit env data p =
     (case handleSubmit_sync env data p of
        (p1, None) \<Rightarrow> [p1]
      | (p1, Some k) \<Rightarrow> [p1, handleSubmit_resume k p1])"

text \<open>The \<open>onSubmit\<close> of the form: \<open>form.handleSubmit(handleSubmit)\<close>.\<close>

definition form_onSubmit :: "submit_env \<Rightarrow> page \<Rightarrow> page" where
  "form_onSubmit env p =
     (case form_handleSubmit (\<lambda>data. handleSubmit_sync env data p) (form_values p) of
        Inl issues \<Rightarrow> p\<lparr>form_errors := issues, form_isValid := False\<rparr>
      | Inr (p1, None) \<Rightarrow> p1\<lparr>form_errors := []\<rparr>
      | Inr (p1, Some k) \<Rightarrow> p1\<lparr>form_errors := [], pending := pending p1 @ [k]\<rparr>)"


definition timer_fires :: "page \<Rightarrow> page" where
  "timer_fires p =
     (case pending p of
        [] \<Rightarrow> p
      | k # ks \<Rightarrow> (handleSubmit_resume k p)\<lparr>pending := ks\<rparr>)"

subsection \<open>Download and share\<close>

text \<open>
  \<open>downloadQrCode\<close> is a helper outside this component; it either returns or throws.
\<close>

definition handleDownload :: "bool \<Rightarrow> jsstring \<Rightarrow> jsstring \<Rightarrow> page \<Rightarrow> page" where
  "handleDownload download_throws imageUrl filename p =
     (if download_throws
      then p\<lparr>toasts := toasts p @ [Toast_error (js ''Failed to download QR code'')]\<rparr>
      else p\<lparr>downloads := downloads p @ [(imageUrl, filename)],
             toasts := toasts p @ [Toast_success (js ''QR Code downloaded!'')]\<rparr>)"

text \<open>
  \<open>navigator.clipboard\<close> is undefined in a context that is not secure, where reading
  \<open>writeText\<close> from it throws \<open>TypeError\<close>; where it is defined, \<open>writeText\<close> returns a
  promise at once, which later resolves (the text is on the clipboard) or rejects
  (for example permission denied).
\<close>

datatype write_outcome = Resolves | Rejects

datatype clipboard_api = Unavailable | Available write_outcome

record share_env =
  origin :: jsstring
  clipboard :: clipboard_api

definition copied_message :: jsstring where
  "copied_message = js ''Link copied to clipboard! '' @ [0xD83D, 0xDCCB]"

definition copy_failed_message :: jsstring where
  "copy_failed_message = js ''Failed to copy link''"

text \<open>
  The call \<open>navigator.clipboard.writeText(text)\<close> as an expression: it throws at once
  where there is no clipboard object, and otherwise returns a promise with its later
  outcome.
\<close>

definition navigator_clipboard_writeText ::
  "share_env \<Rightarrow> jsstring \<Rightarrow> js_error + write_outcome" where
  "navigator_clipboard_writeText env text =
     (case clipboard env of
        Unavailable \<Rightarrow> Inl TypeError
      | Available outcome \<Rightarrow> Inr outcome)"

text \<open>
  \<open>handleShare\<close>: the promise of \<open>writeText\<close> is neither awaited nor given a handler, so
  \<open>catch\<close> sees a throw of the call itself and nothing else; once the call has
  returned, the success notification is shown whatever becomes of the promise.
\<close>

definition handleShare :: "share_env \<Rightarrow> jsstring \<Rightarrow> page \<Rightarrow> page" where
  "handleShare env qrId p =
     (let text = origin env @ js ''/start/'' @ qrId
      in case navigator_clipboard_writeText env text of
           Inl err \<Rightarrow> p\<lparr>toasts := toasts p @ [Toast_error copy_failed_message]\<rparr>
         | Inr outcome \<Rightarrow>
             (let p1 = p\<lparr>writeText_calls := writeText_calls p @ [text]\<rparr>;
                  p2 = (case outcome of
                          Resolves \<Rightarrow> p1\<lparr>clipboard_text := Some text\<rparr>
                        | Rejects \<Rightarrow>
                            p1\<lparr>unhandled_rejections := Suc (unhandled_rejections p1)\<rparr>)
              in p2\<lparr>toasts := toasts p2 @ [Toast_success copied_message]\<rparr>))"

text \<open>The two buttons are rendered only while there is a response.\<close>

definition download_click :: "bool \<Rightarrow> page \<Rightarrow> page" where
  "download_click download_throws p =
     (case response p of
        None \<Rightarrow> p
      | Some r \<Rightarrow> handleDownload download_throws (image_url r) (js ''qrCode'') p)"

definition share_click :: "share_env \<Rightarrow> page \<Rightarrow> page" where
  "share_click env p =
     (case response p of
        None \<Rightarrow> p
      | Some r \<Rightarrow> handleShare env (qr_id r) p)"

subsection \<open>What is rendered\<close>

datatype RequestState = Idle | Loading | Success QrGenerateResponse | Failed jsstring

text \<open>
  The lifecycle stage as the page shows it: the loading dots while \<open>isLoading\<close>, the
  error alert while \<open>error\<close> is set, the card while there is a response.
\<close>

definition request_state :: "page \<Rightarrow> RequestState" where
  "request_state p =
     (if isLoading p then Loading
      else case error p of
             Some m \<Rightarrow> Failed m
           | None \<Rightarrow> (case response p of Some r \<Rightarrow> Success r | None \<Rightarrow> Idle))"

text \<open>
  \<open>QrCard\<close> is rendered with \<open>imageURL={response.image_url}\<close> while there is a response;
  its \<open>img\<close> element is what makes the browser request the image from the QR service.
\<close>

definition QrCard_imageURL :: "page \<Rightarrow> jsstring option" where
  "QrCard_imageURL p = map_option image_url (response p)"

subsection \<open>Events and reachable states\<close>

text \<open>
  \<open>Submit_click\<close> is a submit event that reaches the form; it runs the form's
  \<open>onSubmit\<close>. \<open>Image_error\<close> is the error event of the card's \<open>img\<close>: the request to the
  QR service has failed. \<open>QrCard\<close> gives the element no \<open>onError\<close> handler and \<open>Body\<close>
  listens for nothing of the kind, so the page stays as it is.
\<close>

datatype event =
    Change_url jsstring
  | Change_prompt jsstring
  | Suggestion_click jsstring
  | Submit_click submit_env
  | Timer_fires
  | Download_click bool
  | Share_click share_env
  | Image_error

fun step :: "event \<Rightarrow> page \<Rightarrow> page" where
  "step (Change_url s) p = change_url s p"
| "step (Change_prompt s) p = change_prompt s p"
| "step (Suggestion_click s) p = handleSuggestionClick s p"
| "step (Submit_click env) p = form_onSubmit env p"
| "step Timer_fires p = timer_fires p"
| "step (Download_click t) p = download_click t p"
| "step (Share_click env) p = share_click env p"
| "step Image_error p = p"

inductive reachable :: "page \<Rightarrow> bool" where
  mounted: "reachable (mount ps)"
| stepped: "reachable p \<Longrightarrow> reachable (step e p)"

fun run :: "event list \<Rightarrow> page \<Rightarrow> page" where
  "run [] p = p"
| "run (e # es) p = run es (step e p)"

subsection \<open>Well-formed URLs\<close>

text \<open>
  An absolute \<open>http\<close> or \<open>https\<close> URL in the syntax of RFC 3986: after the scheme and
  \<open>://\<close> a non-empty authority, and then only unreserved and reserved characters and
  percent-escapes, each \<open>%\<close> followed by two hexadecimal digits.
\<close>

definition isHexDigit :: "code_unit \<Rightarrow> bool" where
  "isHexDigit c \<longleftrightarrow>
     (0x30 \<le> c \<and> c \<le> 0x39) \<or> (0x41 \<le> c \<and> c \<le> 0x46) \<or> (0x61 \<le> c \<and> c \<le> 0x66)"

definition isURLChar :: "code_unit \<Rightarrow> bool" where
  "isURLChar c \<longleftrightarrow>
     (0x41 \<le> c \<and> c \<le> 0x5A) \<or> (0x61 \<le> c \<and> c \<le> 0x7A) \<or> (0x30 \<le> c \<and> c \<le> 0x39) \<or>
     c \<in> set (js ''-._~:/?#[]@!$&()*+,;='' @ [0x27])"

fun escapes_ok :: "jsstring \<Rightarrow> bool" where
  "escapes_ok [] = True"
| "escapes_ok (c # cs) =
     (if c = 0x25 then
        (case cs of
           h # l # rest \<Rightarrow> isHexDigit h \<and> isHexDigit l \<and> escapes_ok rest
         | _ \<Rightarrow> False)
      else isURLChar c \<and> escapes_ok cs)"

fun strip_prefix :: "jsstring \<Rightarrow> jsstring \<Rightarrow> jsstring option" where
  "strip_prefix [] s = Some s"
| "strip_prefix (c # cs) [] = None"
| "strip_prefix (c # cs) (d # ds) = (if c = d then strip_prefix cs ds else None)"

definition well_formed_url :: "jsstring \<Rightarrow> bool" where
  "well_formed_url s \<longleftrightarrow>
     (case (case strip_prefix (js ''https://'') s of
              Some r \<Rightarrow> Some r
            | None \<Rightarrow> strip_prefix (js ''http://'') s) of
        None \<Rightarrow> False
      | Some r \<Rightarrow> takeWhile (\<lambda>c. c \<notin> set (js ''/?#'')) r \<noteq> [] \<and> escapes_ok r)"

subsection \<open>Sample surroundings\<close>

text \<open>
  A first random number of one half, a clock value, and a second random number of one
  half, which prints as \<open>0.i\<close> in base 36; the properties of a page opened on a stored
  code; a page opened without properties.
\<close>

definition sample_env :: submit_env where
  "sample_env =
     \<lparr>Math_random = 1 / 2, Date_now = 1700000000000, Math_random_toString36 = js ''0.i''\<rparr>"

definition sample_props :: props where
  "sample_props =
     \<lparr>props_imageUrl = Some (qr_endpoint @ js ''https%3A%2F%2Fexample.com''),
      props_prompt = Some (js ''A city view with clouds''),
      props_redirectUrl = Some (js ''https://example.com''),
      props_modelLatency = Some 450,
      props_id = Some (js ''qr-123'')\<rparr>"

definition no_props :: props where
  "no_props =
     \<lparr>props_imageUrl = None, props_prompt = None, props_redirectUrl = None,
      props_modelLatency = None, props_id = None\<rparr>"

section \<open>Validation\<close>

lemma generateFormSchema_ok_iff:
  "generateFormSchema v = [] \<longleftrightarrow>
     url v \<noteq> [] \<and> 3 \<le> length (prompt v) \<and> length (prompt v) \<le> 160"
  by (auto simp: generateFormSchema_def)

lemma form_handleSubmit_invalid:
  "generateFormSchema v \<noteq> [] \<Longrightarrow> form_handleSubmit onValid v = Inl (generateFormSchema v)"
  by (cases "generateFormSchema v") (simp_all add: form_handleSubmit_def)

lemma form_handleSubmit_valid:
  "generateFormSchema v = [] \<Longrightarrow> form_handleSubmit onValid v = Inr (onValid v)"
  by (simp add: form_handleSubmit_def)

lemma request_state_eqI:
  "isLoading p = isLoading q \<Longrightarrow> error p = error q \<Longrightarrow> response p = response q
   \<Longrightarrow> request_state p = request_state q"
  by (simp add: request_state_def cong: option.case_cong)

text \<open>
  C1. When the url is empty, or the prompt is shorter than 3 or longer than 160 code
  units, \<open>form.handleSubmit\<close> returns the issues of the schema, among them the issue of
  the offending field, whatever the handler is: the handler is not called. On the page
  only the form's errors change: nothing is pending, no notification is shown, the
  lifecycle stage and the rendered card are what they were.
\<close>

theorem invalid_input_is_rejected:
  fixes p :: page and env :: submit_env and onValid :: "GenerateFormValues \<Rightarrow> 'a"
  assumes "url (form_values p) = [] \<or> length (prompt (form_values p)) < 3
           \<or> 160 < length (prompt (form_values p))"
  shows "form_handleSubmit onValid (form_values p) = Inl (generateFormSchema (form_values p))
       \<and> (url (form_values p) = [] \<longrightarrow>
            \<lparr>path = Url, code = Too_small, message = Some (js ''URL is required'')\<rparr>
              \<in> set (generateFormSchema (form_values p)))
       \<and> (length (prompt (form_values p)) < 3 \<longrightarrow>
            \<lparr>path = Prompt, code = Too_small,
              message = Some (js ''Prompt must be at least 3 characters'')\<rparr>
              \<in> set (generateFormSchema (form_values p)))
       \<and> (160 < length (prompt (form_values p)) \<longrightarrow>
            \<lparr>path = Prompt, code = Too_big, message = None\<rparr>
              \<in> set (generateFormSchema (form_values p)))
       \<and> form_onSubmit env p =
            p\<lparr>form_errors := generateFormSchema (form_values p), form_isValid := False\<rparr>
       \<and> pending (form_onSubmit env p) = pending p
       \<and> toasts (form_onSubmit env p) = toasts p
       \<and> request_state (form_onSubmit env p) = request_state p
       \<and> QrCard_imageURL (form_onSubmit env p) = QrCard_imageURL p"
proof -
  have bad: "generateFormSchema (form_values p) \<noteq> []"
    using assms by (auto simp: generateFormSchema_ok_iff)
  have sub: "form_onSubmit env p =
      p\<lparr>form_errors := generateFormSchema (form_values p), form_isValid := False\<rparr>"
    by (simp add: form_onSubmit_def form_handleSubmit_invalid [OF bad])
  have issues: "(url (form_values p) = [] \<longrightarrow>
            \<lparr>path = Url, code = Too_small, message = Some (js ''URL is required'')\<rparr>
              \<in> set (generateFormSchema (form_values p)))
       \<and> (length (prompt (form_values p)) < 3 \<longrightarrow>
            \<lparr>path = Prompt, code = Too_small,
              message = Some (js ''Prompt must be at least 3 characters'')\<rparr>
              \<in> set (generateFormSchema (form_values p)))
       \<and> (160 < length (prompt (form_values p)) \<longrightarrow>
            \<lparr>path = Prompt, code = Too_big, message = None\<rparr>
              \<in> set (generateFormSchema (form_values p)))"
    by (simp add: generateFormSchema_def)
  have rs: "request_state (form_onSubmit env p) = request_state p"
    unfolding sub by (rule request_state_eqI) simp_all
  show ?thesis
    using issues rs by (simp add: sub form_handleSubmit_invalid [OF bad] QrCard_imageURL_def)
qed

text \<open>The page as mounted without properties has an empty url and an empty prompt.\<close>

theorem invalid_input_is_rejected_witness:
  "url (form_values initial) = []
   \<and> form_handleSubmit (\<lambda>data. True) (form_values initial) =
       Inl [\<lparr>path = Url, code = Too_small, message = Some (js ''URL is required'')\<rparr>,
            \<lparr>path = Prompt, code = Too_small,
              message = Some (js ''Prompt must be at least 3 characters'')\<rparr>]
   \<and> pending (form_onSubmit \<lparr>Math_random = 0, Date_now = 0, Math_random_toString36 = []\<rparr>
                initial) = []
   \<and> request_state (form_onSubmit
         \<lparr>Math_random = 0, Date_now = 0, Math_random_toString36 = []\<rparr> initial) = Idle"
  using invalid_input_is_rejected
    [of initial "\<lambda>data. True" "\<lparr>Math_random = 0, Date_now = 0, Math_random_toString36 = []\<rparr>"]
  by (simp add: initial_def generateFormSchema_def request_state_def)

section \<open>\<open>encodeURIComponent\<close> throws exactly on an unpaired surrogate\<close>

lemma uriUnescaped_not_surrogate: "uriUnescaped c \<Longrightarrow> \<not> isLead c \<and> \<not> isTrail c"
  by (auto simp: uriUnescaped_def isLead_def isTrail_def js_def word_le_nat_alt)

lemma Encode_throws_iff: "(\<exists>e. Encode s = Inl e) \<longleftrightarrow> \<not> isWellFormed s"
proof (induction s rule: Encode.induct)
  case 1
  show ?case by simp
next
  case (2 c cs)
  show ?case
  proof (cases "uriUnescaped c")
    case True
    with 2 uriUnescaped_not_surrogate [OF True] show ?thesis
      by (cases "Encode cs") auto
  next
    case unesc: False
    show ?thesis
    proof (cases "isTrail c")
      case True
      with unesc show ?thesis by simp
    next
      case notrail: False
      show ?thesis
      proof (cases "isLead c")
        case False
        with unesc notrail 2 show ?thesis
          by (cases "Encode cs") auto
      next
        case True
        show ?thesis
        proof (cases cs)
          case Nil
          with unesc notrail True show ?thesis by simp
        next
          case (Cons d ds)
          with unesc notrail True 2 show ?thesis
            by (cases "Encode ds") auto
        qed
      qed
    qed
  qed
qed

lemma encodeURIComponent_returns_iff:
  "(\<exists>e. encodeURIComponent s = Inr e) \<longleftrightarrow> isWellFormed s"
proof -
  have "(\<exists>e. Encode s = Inr e) \<longleftrightarrow> \<not> (\<exists>e. Encode s = Inl e)"
    by (cases "Encode s") auto
  then show ?thesis
    by (simp add: encodeURIComponent_def Encode_throws_iff)
qed

lemmas string_eval =
  js_def uriUnescaped_def isLead_def isTrail_def utf8_def percent_def hexDigit_def
  pairCodePoint_def encodeURIComponent_def

lemma encode_example:
  "encodeURIComponent (js ''https://example.com'') = Inr (js ''https%3A%2F%2Fexample.com'')"
  by (simp add: string_eval)

lemma encode_lone_lead: "encodeURIComponent [0xD800] = Inl URIError"
  by (simp add: string_eval)

lemma encode_lone_trail:
  "encodeURIComponent (js ''https://example.com/'' @ [0xDC00]) = Inl URIError"
  by (simp add: string_eval)

subsection \<open>What \<open>encodeURIComponent\<close> returns is safe inside a URL\<close>

lemma hexDigit_isHex: "d < 16 \<Longrightarrow> isHexDigit (hexDigit d)"
proof -
  assume "d < 16"
  then consider "d = 0" | "d = 1" | "d = 2" | "d = 3" | "d = 4" | "d = 5" | "d = 6" | "d = 7"
    | "d = 8" | "d = 9" | "d = 10" | "d = 11" | "d = 12" | "d = 13" | "d = 14" | "d = 15"
    by atomize_elim arith
  then show ?thesis
    by cases (simp_all add: hexDigit_def isHexDigit_def)
qed

lemma escapes_ok_percent:
  "octet < 256 \<Longrightarrow> escapes_ok (percent octet @ rest) = escapes_ok rest"
  by (simp add: percent_def hexDigit_isHex)

lemma escapes_ok_percents:
  "\<forall>b \<in> set bs. b < 256 \<Longrightarrow> escapes_ok (concat (map percent bs) @ rest) = escapes_ok rest"
  by (induction bs) (simp_all add: escapes_ok_percent del: escapes_ok.simps)

lemma utf8_octets: "cp < 0x110000 \<Longrightarrow> \<forall>b \<in> set (utf8 cp). b < 256"
  by (auto simp: utf8_def)

lemma pairCodePoint_bound: "isLead c \<Longrightarrow> isTrail d \<Longrightarrow> pairCodePoint c d < 0x110000"
  by (simp add: pairCodePoint_def isLead_def isTrail_def word_le_nat_alt) arith

lemma unat_code_unit: "unat (c :: code_unit) < 0x110000"
proof -
  have "unat c < 2 ^ LENGTH(16)" by (rule unsigned_less)
  then show ?thesis by simp
qed

lemma uriUnescaped_isURLChar: "uriUnescaped c \<Longrightarrow> isURLChar c \<and> c \<noteq> 0x25"
  by (auto simp: uriUnescaped_def isURLChar_def js_def)

lemma Encode_escapes_ok: "Encode s = Inr e \<Longrightarrow> escapes_ok e"
proof (induction s arbitrary: e rule: Encode.induct)
  case 1
  then show ?case by simp
next
  case (2 c cs)
  show ?case
  proof (cases "uriUnescaped c")
    case True
    with "2.prems" obtain e' where e': "Encode cs = Inr e'" "e = c # e'"
      by (cases "Encode cs") auto
    with True "2.IH"(1) uriUnescaped_isURLChar [OF True] show ?thesis by simp
  next
    case unesc: False
    show ?thesis
    proof (cases "\<not> isLead c \<and> \<not> isTrail c")
      case True
      with unesc "2.prems" obtain e' where
        e': "Encode cs = Inr e'" "e = concat (map percent (utf8 (unat c))) @ e'"
        by (cases "Encode cs") auto
      with unesc True "2.IH"(2) have "escapes_ok e'" by simp
      moreover have "\<forall>b \<in> set (utf8 (unat c)). b < 256"
        by (rule utf8_octets [OF unat_code_unit])
      ultimately show ?thesis
        using e' by (simp only: escapes_ok_percents)
    next
      case sur: False
      with unesc "2.prems" have lead: "isLead c" "\<not> isTrail c"
        by (auto split: if_splits)
      with unesc "2.prems" obtain d ds where cs: "cs = d # ds" and tr: "isTrail d"
        by (cases cs) (auto split: if_splits)
      with unesc lead "2.prems" obtain e' where
        e': "Encode ds = Inr e'" "e = concat (map percent (utf8 (pairCodePoint c d))) @ e'"
        by (cases "Encode ds") auto
      with unesc lead cs tr "2.IH"(3) have "escapes_ok e'" by simp
      moreover have "\<forall>b \<in> set (utf8 (pairCodePoint c d)). b < 256"
        by (rule utf8_octets [OF pairCodePoint_bound [OF lead(1) tr]])
      ultimately show ?thesis
        using e' by (simp only: escapes_ok_percents)
    qed
  qed
qed

lemma escapes_ok_append_plain:
  "\<forall>c \<in> set a. isURLChar c \<and> c \<noteq> 0x25 \<Longrightarrow> escapes_ok (a @ b) = escapes_ok b"
  by (induction a) simp_all

lemma image_url_well_formed:
  assumes "encodeURIComponent u = Inr e"
  shows "well_formed_url (qr_endpoint @ e)"
proof -
  from assms have e: "escapes_ok e"
    by (simp add: encodeURIComponent_def Encode_escapes_ok)
  have "strip_prefix (js ''https://'') (qr_endpoint @ e)
          = Some (js ''api.qrserver.com/v1/create-qr-code/?size=300x300&data='' @ e)"
    by (simp add: qr_endpoint_def js_def)
  moreover have "takeWhile (\<lambda>c. c \<notin> set (js ''/?#''))
          (js ''api.qrserver.com/v1/create-qr-code/?size=300x300&data='' @ e) \<noteq> []"
    by (simp add: js_def)
  moreover have "escapes_ok (js ''api.qrserver.com/v1/create-qr-code/?size=300x300&data='' @ e)"
    using e by (subst escapes_ok_append_plain) (simp_all add: js_def isURLChar_def)
  ultimately show ?thesis
    by (simp add: well_formed_url_def)
qed

subsection \<open>The id of a response\<close>

lemma sample_id: "qr_id (mockResponse sample_env e) = js ''qr-1700000000000-i''"
  by (simp add: mockResponse_def sample_env_def Number_toString_def substr_def js_def
      decimal.simps)

section \<open>One call of \<open>handleSubmit\<close>\<close>

lemma request_state_simps:
  "isLoading p \<Longrightarrow> request_state p = Loading"
  "\<not> isLoading p \<Longrightarrow> error p = Some m \<Longrightarrow> request_state p = Failed m"
  "\<not> isLoading p \<Longrightarrow> error p = None \<Longrightarrow> response p = Some r \<Longrightarrow> request_state p = Success r"
  "\<not> isLoading p \<Longrightarrow> error p = None \<Longrightarrow> response p = None \<Longrightarrow> request_state p = Idle"
  by (simp_all add: request_state_def)

lemma request_state_Success_D:
  "request_state p = Success r \<Longrightarrow> response p = Some r \<and> \<not> isLoading p \<and> error p = None"
  by (auto simp: request_state_def split: if_splits option.splits)

lemma handleSubmit_sync_throws:
  "encodeURIComponent (url data) = Inl err \<Longrightarrow>
   handleSubmit_sync env data p =
     (p\<lparr>isLoading := False, error := Some failed_message, response := None,
        toasts := toasts p @ [Toast_error failed_message]\<rparr>, None)"
  by (simp add: handleSubmit_sync_def)

lemma handleSubmit_sync_returns:
  "encodeURIComponent (url data) = Inr enc \<Longrightarrow>
   handleSubmit_sync env data p =
     (p\<lparr>isLoading := True, error := None, response := None\<rparr>,
      Some (Suspended (mockResponse env enc) data))"
  by (simp add: handleSubmit_sync_def)

lemma handleSubmit_returns:
  assumes "encodeURIComponent (url data) = Inr enc"
  shows "handleSubmit env data p =
     [p\<lparr>isLoading := True, error := None, response := None\<rparr>,
      p\<lparr>isLoading := False, error := None, response := Some (mockResponse env enc),
        submittedURL := Some (url data),
        toasts := toasts p @ [Toast_success generated_message]\<rparr>]"
  by (simp add: handleSubmit_def handleSubmit_sync_returns [OF assms] handleSubmit_resume_def)

lemma handleSubmit_throws:
  assumes "encodeURIComponent (url data) = Inl err"
  shows "handleSubmit env data p =
           [p\<lparr>isLoading := False, error := Some failed_message, response := None,
              toasts := toasts p @ [Toast_error failed_message]\<rparr>]"
  by (simp add: handleSubmit_def handleSubmit_sync_throws [OF assms])

lemma form_onSubmit_throws:
  "generateFormSchema (form_values p) = [] \<Longrightarrow>
   encodeURIComponent (url (form_values p)) = Inl err \<Longrightarrow>
   form_onSubmit env p =
     p\<lparr>isLoading := False, error := Some failed_message, response := None,
       toasts := toasts p @ [Toast_error failed_message], form_errors := []\<rparr>"
  by (simp add: form_onSubmit_def form_handleSubmit_valid handleSubmit_sync_throws)

lemma form_onSubmit_returns:
  "generateFormSchema (form_values p) = [] \<Longrightarrow>
   encodeURIComponent (url (form_values p)) = Inr enc \<Longrightarrow>
   form_onSubmit env p =
     p\<lparr>isLoading := True, error := None, response := None, form_errors := [],
       pending := pending p @ [Suspended (mockResponse env enc) (form_values p)]\<rparr>"
  by (simp add: form_onSubmit_def form_handleSubmit_valid handleSubmit_sync_returns)

lemma form_onSubmit_invalid:
  "generateFormSchema (form_values p) \<noteq> [] \<Longrightarrow>
   form_onSubmit env p =
     p\<lparr>form_errors := generateFormSchema (form_values p), form_isValid := False\<rparr>"
  by (simp add: form_onSubmit_def form_handleSubmit_invalid)

section \<open>Sharing leaves the lifecycle alone\<close>

lemma handleShare_cases:
  "clipboard env = Unavailable \<Longrightarrow>
     handleShare env qrId p = p\<lparr>toasts := toasts p @ [Toast_error copy_failed_message]\<rparr>"
  "clipboard env = Available Resolves \<Longrightarrow>
     handleShare env qrId p =
       p\<lparr>writeText_calls := writeText_calls p @ [origin env @ js ''/start/'' @ qrId],
         clipboard_text := Some (origin env @ js ''/start/'' @ qrId),
         toasts := toasts p @ [Toast_success copied_message]\<rparr>"
  "clipboard env = Available Rejects \<Longrightarrow>
     handleShare env qrId p =
       p\<lparr>writeText_calls := writeText_calls p @ [origin env @ js ''/start/'' @ qrId],
         unhandled_rejections := Suc (unhandled_rejections p),
         toasts := toasts p @ [Toast_success copied_message]\<rparr>"
  by (simp_all add: handleShare_def navigator_clipboard_writeText_def Let_def)

lemma handleShare_lifecycle_conj:
  "isLoading (handleShare env qrId p) = isLoading p
   \<and> error (handleShare env qrId p) = error p
   \<and> response (handleShare env qrId p) = response p
   \<and> pending (handleShare env qrId p) = pending p"
proof -
  consider "clipboard env = Unavailable" | "clipboard env = Available Resolves"
    | "clipboard env = Available Rejects"
    by (cases "clipboard env") (auto intro: write_outcome.exhaust)
  then show ?thesis
    by cases (simp_all add: handleShare_cases)
qed

lemmas handleShare_lifecycle =
  handleShare_lifecycle_conj [THEN conjunct1]
  handleShare_lifecycle_conj [THEN conjunct2, THEN conjunct1]
  handleShare_lifecycle_conj [THEN conjunct2, THEN conjunct2, THEN conjunct1]
  handleShare_lifecycle_conj [THEN conjunct2, THEN conjunct2, THEN conjunct2]

section \<open>Reachable pages\<close>

text \<open>
  While \<open>isLoading\<close> is set no response is held: a call sets \<open>isLoading\<close> and clears the
  response together, and sets the response and clears \<open>isLoading\<close> together.
\<close>

lemma form_onSubmit_loading:
  assumes "isLoading p \<longrightarrow> response p = None"
  shows "isLoading (form_onSubmit env p) \<longrightarrow> response (form_onSubmit env p) = None"
proof (cases "generateFormSchema (form_values p) = []")
  case False
  with assms show ?thesis by (simp add: form_onSubmit_invalid)
next
  case True
  show ?thesis
  proof (cases "encodeURIComponent (url (form_values p))")
    case (Inl err)
    show ?thesis by (simp add: form_onSubmit_throws [OF True Inl])
  next
    case (Inr enc)
    show ?thesis by (simp add: form_onSubmit_returns [OF True Inr])
  qed
qed

lemma timer_fires_loading:
  assumes "isLoading p \<longrightarrow> response p = None"
  shows "isLoading (timer_fires p) \<longrightarrow> response (timer_fires p) = None"
proof (cases "pending p")
  case Nil
  with assms show ?thesis by (simp add: timer_fires_def)
next
  case (Cons k ks)
  then show ?thesis
    by (cases k) (simp add: timer_fires_def handleSubmit_resume_def)
qed

lemma step_loading:
  assumes "isLoading p \<longrightarrow> response p = None"
  shows "isLoading (step e p) \<longrightarrow> response (step e p) = None"
proof (cases e)
  case (Submit_click env)
  with form_onSubmit_loading [OF assms] show ?thesis by simp
next
  case Timer_fires
  with timer_fires_loading [OF assms] show ?thesis by simp
next
  case (Share_click env)
  with assms show ?thesis
    by (auto simp: share_click_def handleShare_lifecycle split: option.splits)
next
  case (Download_click t)
  with assms show ?thesis
    by (auto simp: download_click_def handleDownload_def split: option.splits)
qed (use assms in \<open>simp_all add: change_url_def change_prompt_def handleSuggestionClick_def
      validate_field_def Let_def\<close>)

lemma no_result_while_loading: "reachable p \<Longrightarrow> isLoading p \<longrightarrow> response p = None"
proof (induction rule: reachable.induct)
  case (mounted ps)
  show ?case by (simp add: mount_def initial_def split: option.splits)
next
  case (stepped p e)
  from stepped.IH show ?case by (rule step_loading)
qed

lemma mount_no_props: "mount no_props = initial"
  by (simp add: mount_def no_props_def)

lemma mount_sample_props:
  "mount sample_props =
     initial\<lparr>response := Some \<lparr>image_url = qr_endpoint @ js ''https%3A%2F%2Fexample.com'',
                                model_latency_ms = 450, qr_id = js ''qr-123''\<rparr>,
             submittedURL := Some (js ''https://example.com''),
             form_values := \<lparr>url = js ''https://example.com'',
                              prompt = js ''A city view with clouds''\<rparr>\<rparr>"
  by (simp add: mount_def sample_props_def qr_endpoint_def js_def)

subsection \<open>Typing a url and a prompt into the empty form, then submitting\<close>

lemma run_typing:
  assumes "generateFormSchema \<lparr>url = u, prompt = pr\<rparr> = []"
  shows "run [Change_url u, Change_prompt pr] initial =
           initial\<lparr>form_values := \<lparr>url = u, prompt = pr\<rparr>, form_isValid := True\<rparr>"
proof -
  from assms have u: "u \<noteq> []" by (simp add: generateFormSchema_ok_iff)
  have 1: "change_url u initial =
      initial\<lparr>form_values := \<lparr>url = u, prompt = []\<rparr>\<rparr>"
    using u by (simp add: change_url_def validate_field_def initial_def generateFormSchema_def)
  have 2: "change_prompt pr (initial\<lparr>form_values := \<lparr>url = u, prompt = []\<rparr>\<rparr>) =
      initial\<lparr>form_values := \<lparr>url = u, prompt = pr\<rparr>, form_isValid := True\<rparr>"
    using assms by (simp add: change_prompt_def validate_field_def initial_def)
  show ?thesis by (simp add: 1 2)
qed

lemma run_submit:
  assumes valid: "generateFormSchema \<lparr>url = u, prompt = pr\<rparr> = []"
      and enc: "encodeURIComponent u = Inr e"
  shows "run [Change_url u, Change_prompt pr, Submit_click env] initial =
           initial\<lparr>form_values := \<lparr>url = u, prompt = pr\<rparr>, form_isValid := True,
                   isLoading := True,
                   pending := [Suspended (mockResponse env e) \<lparr>url = u, prompt = pr\<rparr>]\<rparr>"
    and "run [Change_url u, Change_prompt pr, Submit_click env, Timer_fires] initial =
           initial\<lparr>form_values := \<lparr>url = u, prompt = pr\<rparr>, form_isValid := True,
                   response := Some (mockResponse env e), submittedURL := Some u,
                   toasts := [Toast_success generated_message]\<rparr>"
proof -
  let ?p0 = "initial\<lparr>form_values := \<lparr>url = u, prompt = pr\<rparr>, form_isValid := True\<rparr>"
  have a: "run [Change_url u, Change_prompt pr, Submit_click env] initial = form_onSubmit env ?p0"
    and b: "run [Change_url u, Change_prompt pr, Submit_click env, Timer_fires] initial =
            timer_fires (form_onSubmit env ?p0)"
    using run_typing [OF valid] by simp_all
  have v: "generateFormSchema (form_values ?p0) = []" using valid by simp
  have e: "encodeURIComponent (url (form_values ?p0)) = Inr e" using enc by simp
  have c: "form_onSubmit env ?p0 =
           initial\<lparr>form_values := \<lparr>url = u, prompt = pr\<rparr>, form_isValid := True,
                   isLoading := True,
                   pending := [Suspended (mockResponse env e) \<lparr>url = u, prompt = pr\<rparr>]\<rparr>"
    by (simp add: form_onSubmit_returns [OF v e]) (simp add: initial_def)
  show "run [Change_url u, Change_prompt pr, Submit_click env] initial =
           initial\<lparr>form_values := \<lparr>url = u, prompt = pr\<rparr>, form_isValid := True,
                   isLoading := True,
                   pending := [Suspended (mockResponse env e) \<lparr>url = u, prompt = pr\<rparr>]\<rparr>"
    by (simp only: a c)
  show "run [Change_url u, Change_prompt pr, Submit_click env, Timer_fires] initial =
           initial\<lparr>form_values := \<lparr>url = u, prompt = pr\<rparr>, form_isValid := True,
                   response := Some (mockResponse env e), submittedURL := Some u,
                   toasts := [Toast_success generated_message]\<rparr>"
    unfolding b c by (simp add: timer_fires_def handleSubmit_resume_def initial_def)
qed



lemma valid_example:
  "generateFormSchema
     \<lparr>url = js ''https://example.com'', prompt = js ''A city view with clouds''\<rparr> = []"
  by (simp add: generateFormSchema_def js_def)



lemma valid_lone_trail:
  "generateFormSchema
     \<lparr>url = js ''https://example.com/'' @ [0xDC00], prompt = js ''A saharan desert''\<rparr> = []"
  by (simp add: generateFormSchema_def js_def)

section \<open>Rounding to a double\<close>

lemma round_half_even_ge: "of_int n \<le> z \<Longrightarrow> n \<le> round_half_even z"
proof -
  assume "of_int n \<le> z"
  then have "n \<le> \<lfloor>z\<rfloor>" by (simp add: le_floor_iff)
  then show ?thesis by (simp add: round_half_even_def Let_def)
qed

lemma round_half_even_le: "z \<le> of_int n \<Longrightarrow> round_half_even z \<le> n"
proof (cases "z = of_int n")
  case True
  then show ?thesis by (simp add: round_half_even_def Let_def)
next
  case False
  assume "z \<le> of_int n"
  with False have "z < of_int n" by simp
  then have "\<lfloor>z\<rfloor> < n" by (simp add: floor_less_iff)
  then show ?thesis by (simp add: round_half_even_def Let_def)
qed

lemma round_half_even_of_int [simp]: "round_half_even (of_int n) = n"
  by (simp add: round_half_even_def Let_def)

lemma round_half_even_error: "\<bar>of_int (round_half_even z) - z\<bar> \<le> 1 / 2"
proof -
  have "of_int \<lfloor>z\<rfloor> \<le> z" and "z < of_int \<lfloor>z\<rfloor> + 1" by linarith+
  then show ?thesis
    by (auto simp: round_half_even_def Let_def)
qed

text \<open>\<open>binade y\<close> is the exponent of the power of two at or below a positive \<open>y\<close>.\<close>

lemma binade_bounds:
  assumes "0 < y"
  shows "2 powi binade y \<le> y \<and> y < 2 powi (binade y + 1)"
proof (cases "1 \<le> y")
  case True
  let ?m = "\<lfloor>y\<rfloor>"
  from True have m: "0 < ?m" by simp
  from bitlen_bounds [OF m] have lo: "2 ^ nat (bitlen ?m - 1) \<le> ?m"
    and hi: "?m < 2 ^ nat (bitlen ?m)" by simp_all
  from m have b1: "1 \<le> bitlen ?m" by (simp add: bitlen_ge_iff_power)
  have k: "binade y = bitlen ?m - 1" using True by (simp add: binade_def)
  from lo have "(of_int (2 ^ nat (bitlen ?m - 1)) :: real) \<le> of_int ?m"
    by (simp only: of_int_le_iff)
  also have "\<dots> \<le> y" by simp
  finally have 1: "2 powi binade y \<le> y"
    using b1 by (simp add: k power_int_def)
  from hi have "?m + 1 \<le> 2 ^ nat (bitlen ?m)" by simp
  then have "(of_int (?m + 1) :: real) \<le> of_int (2 ^ nat (bitlen ?m))"
    by (simp only: of_int_le_iff)
  moreover have "y < of_int (?m + 1)" by linarith
  ultimately have "y < of_int (2 ^ nat (bitlen ?m))" by linarith
  then have 2: "y < 2 powi (binade y + 1)"
    using b1 by (simp add: k power_int_def)
  from 1 2 show ?thesis ..
next
  case False
  then have y1: "y < 1" by simp
  let ?d = "\<lceil>1 / y\<rceil> - 1"
  from assms y1 have "1 < 1 / y" by (simp add: field_simps)
  then have "1 < \<lceil>1 / y\<rceil>" by (simp add: less_ceiling_iff)
  then have d: "0 < ?d" by simp
  from bitlen_bounds [OF d] have lo: "2 ^ nat (bitlen ?d - 1) \<le> ?d"
    and hi: "?d < 2 ^ nat (bitlen ?d)" by simp_all
  from d have b1: "1 \<le> bitlen ?d" by (simp add: bitlen_ge_iff_power)
  have k: "binade y = - bitlen ?d" using False by (simp add: binade_def)
  have inv: "1 / y \<le> of_int (?d + 1)" by simp
  from hi have "?d + 1 \<le> 2 ^ nat (bitlen ?d)" by simp
  then have "(of_int (?d + 1) :: real) \<le> of_int (2 ^ nat (bitlen ?d))"
    by (simp only: of_int_le_iff)
  with inv have "1 / y \<le> of_int (2 ^ nat (bitlen ?d))" by (rule order_trans)
  then have "1 / y \<le> 2 ^ nat (bitlen ?d)" by simp
  then have "1 / 2 ^ nat (bitlen ?d) \<le> y"
    using assms by (simp add: field_simps)
  then have 1: "2 powi binade y \<le> y"
    using b1 by (simp add: k power_int_def inverse_eq_divide power_one_over)
  have "of_int ?d < 1 / y" by linarith
  moreover from lo have "(of_int (2 ^ nat (bitlen ?d - 1)) :: real) \<le> of_int ?d"
    by (simp only: of_int_le_iff)
  ultimately have "2 ^ nat (bitlen ?d - 1) < 1 / y" by simp
  then have lt: "y < 1 / 2 ^ nat (bitlen ?d - 1)"
    using assms by (simp add: field_simps)
  have 2: "y < 2 powi (binade y + 1)"
  proof (cases "bitlen ?d = 1")
    case True
    with y1 show ?thesis by (simp add: k)
  next
    case False
    with b1 have "\<not> 0 \<le> 1 - bitlen ?d" by simp
    moreover have "nat (- (1 - bitlen ?d)) = nat (bitlen ?d - 1)" by simp
    ultimately show ?thesis
      using lt by (simp add: k power_int_def inverse_eq_divide power_one_over)
  qed
  from 1 2 show ?thesis ..
qed

lemma binade_le_8:
  assumes "0 \<le> y" and "y < 512"
  shows "binade y \<le> 8"
proof (cases "1 \<le> y")
  case True
  from assms(2) have "\<lfloor>y\<rfloor> < 2 ^ nat 9" by (simp add: floor_less_iff)
  then have "bitlen \<lfloor>y\<rfloor> \<le> 9" by (simp add: bitlen_le_iff_power)
  with True show ?thesis by (simp add: binade_def)
next
  case False
  have "0 \<le> bitlen (\<lceil>1 / y\<rceil> - 1)" by (rule bitlen_nonneg)
  with False show ?thesis by (simp add: binade_def)
qed

text \<open>Below 512 the doubles are at most \<open>2^-44\<close> apart.\<close>

lemma ulp_reciprocal:
  assumes "0 \<le> y" and "y < 512"
  shows "\<exists>j. 44 \<le> j \<and> ulp y = 1 / 2 ^ j"
proof -
  let ?k = "max (binade y) (- 1022)"
  have k: "?k \<le> 8" using binade_le_8 [OF assms] by simp
  then have neg: "\<not> 0 \<le> ?k - 52" by simp
  have "ulp y = inverse 2 ^ nat (52 - ?k)"
    unfolding ulp_def power_int_def using neg by (simp only: if_False) simp
  then have "ulp y = 1 / 2 ^ nat (52 - ?k)"
    by (simp add: inverse_eq_divide power_one_over)
  moreover from k have "44 \<le> nat (52 - ?k)" by simp
  ultimately show ?thesis by blast
qed

lemma round_to_double_unfold:
  "0 \<le> y \<Longrightarrow> ulp y = 1 / 2 ^ j \<Longrightarrow>
   round_to_double y = of_int (round_half_even (y * 2 ^ j)) / 2 ^ j"
  by (simp add: round_to_double_def)

lemma round_to_double_nonneg: "0 \<le> y \<Longrightarrow> 0 \<le> round_to_double y"
proof -
  assume y: "0 \<le> y"
  have u: "0 < ulp y" by (simp add: ulp_def)
  from y u have "of_int 0 \<le> y / ulp y" by simp
  then have "0 \<le> round_half_even (y / ulp y)" by (rule round_half_even_ge)
  with y u show ?thesis by (simp add: round_to_double_def)
qed

lemma round_to_double_ge_int:
  assumes "0 \<le> y" and "y < 512" and "of_int n \<le> y"
  shows "of_int n \<le> round_to_double y"
proof -
  from ulp_reciprocal [OF assms(1,2)] obtain j where j: "ulp y = 1 / 2 ^ j" by blast
  have "of_int (n * 2 ^ j) \<le> y * 2 ^ j" using assms(3) by simp
  then have "n * 2 ^ j \<le> round_half_even (y * 2 ^ j)" by (rule round_half_even_ge)
  then have "of_int (n * 2 ^ j) \<le> (of_int (round_half_even (y * 2 ^ j)) :: real)"
    by (simp only: of_int_le_iff)
  then have "of_int n \<le> of_int (round_half_even (y * 2 ^ j)) / (2 ^ j :: real)"
    by (simp add: pos_le_divide_eq)
  with assms(1) show ?thesis by (simp add: round_to_double_def j)
qed

lemma round_to_double_le_int:
  assumes "0 \<le> y" and "y < 512" and "y \<le> of_int n"
  shows "round_to_double y \<le> of_int n"
proof -
  from ulp_reciprocal [OF assms(1,2)] obtain j where j: "ulp y = 1 / 2 ^ j" by blast
  have "y * 2 ^ j \<le> of_int (n * 2 ^ j)" using assms(3) by simp
  then have "round_half_even (y * 2 ^ j) \<le> n * 2 ^ j" by (rule round_half_even_le)
  then have "(of_int (round_half_even (y * 2 ^ j)) :: real) \<le> of_int (n * 2 ^ j)"
    by (simp only: of_int_le_iff)
  then have "of_int (round_half_even (y * 2 ^ j)) / (2 ^ j :: real) \<le> of_int n"
    by (simp add: pos_divide_le_eq)
  with assms(1) show ?thesis by (simp add: round_to_double_def j)
qed

lemma round_to_double_error:
  assumes "0 \<le> y" and "y < 512"
  shows "\<bar>round_to_double y - y\<bar> \<le> 1 / 2 ^ 45"
proof -
  from ulp_reciprocal [OF assms] obtain j where j44: "44 \<le> j" and j: "ulp y = 1 / 2 ^ j"
    by blast
  have "\<bar>of_int (round_half_even (y * 2 ^ j)) - y * 2 ^ j\<bar> \<le> 1 / 2"
    by (rule round_half_even_error)
  then have "\<bar>of_int (round_half_even (y * 2 ^ j)) - y * 2 ^ j\<bar> / 2 ^ j \<le> (1 / 2) / 2 ^ j"
    by (rule divide_right_mono) simp
  moreover have "\<bar>of_int (round_half_even (y * 2 ^ j)) - y * 2 ^ j\<bar> / 2 ^ j
        = \<bar>of_int (round_half_even (y * 2 ^ j)) / 2 ^ j - y\<bar>"
  proof -
    have "of_int (round_half_even (y * 2 ^ j)) / 2 ^ j - y
          = (of_int (round_half_even (y * 2 ^ j)) - y * 2 ^ j) / 2 ^ j"
      by (simp add: diff_divide_distrib)
    then have "\<bar>of_int (round_half_even (y * 2 ^ j)) / 2 ^ j - y\<bar>
          = \<bar>(of_int (round_half_even (y * 2 ^ j)) - y * 2 ^ j) / 2 ^ j\<bar>"
      by (simp only:)
    also have "\<dots> = \<bar>of_int (round_half_even (y * 2 ^ j)) - y * 2 ^ j\<bar> / 2 ^ j"
      by (simp only: abs_divide) simp
    finally show ?thesis by (rule sym)
  qed
  ultimately have "\<bar>of_int (round_half_even (y * 2 ^ j)) / 2 ^ j - y\<bar> \<le> (1 / 2) / 2 ^ j"
    by (simp only:)
  then have "\<bar>round_to_double y - y\<bar> \<le> (1 / 2) / 2 ^ j"
    by (simp only: round_to_double_unfold [OF assms(1) j])
  also have "(1 / 2) / (2::real) ^ j \<le> (1 / 2) / 2 ^ 44"
  proof -
    have "(2::real) ^ 44 \<le> 2 ^ j" using j44 by (intro power_increasing) simp_all
    then show ?thesis by (intro divide_left_mono) simp_all
  qed
  also have "(1 / 2) / (2::real) ^ 44 = 1 / 2 ^ 45" by simp
  finally show ?thesis .
qed

text \<open>A multiple of \<open>2^-44\<close> below 512 is a double.\<close>

lemma round_to_double_exact:
  assumes "0 \<le> y" and "y < 512" and "y = of_int M / 2 ^ 44"
  shows "round_to_double y = y"
proof -
  from ulp_reciprocal [OF assms(1,2)] obtain j where j44: "44 \<le> j" and j: "ulp y = 1 / 2 ^ j"
    by blast
  from j44 obtain d where d: "j = 44 + d" by (auto simp: le_iff_add)
  have p: "(2::real) ^ j = 2 ^ 44 * 2 ^ d" by (simp only: d power_add)
  have "y * 2 ^ j = of_int M * 2 ^ d"
    by (simp add: assms(3) p)
  then have "y * 2 ^ j = of_int (M * 2 ^ d)" by simp
  then have "round_half_even (y * 2 ^ j) = M * 2 ^ d"
    by (simp only: round_half_even_of_int)
  then have "of_int (round_half_even (y * 2 ^ j)) / (2 ^ j :: real)
             = of_int (M * 2 ^ d) / 2 ^ j"
    by simp
  also have "\<dots> = of_int M / 2 ^ 44"
    by (simp add: p)
  finally have "of_int (round_half_even (y * 2 ^ j)) / (2 ^ j :: real) = y"
    by (simp only: assms(3))
  then show ?thesis
    by (simp only: round_to_double_unfold [OF assms(1) j])
qed

lemma ulp_half:
  assumes "1 / 2 \<le> x" and "x < 1"
  shows "ulp x = 1 / 2 ^ 53"
proof -
  from assms have "1 < 1 / x" and "1 / x \<le> 2"
    by (simp_all add: field_simps)
  then have "\<lceil>1 / x\<rceil> = 2" by (simp add: ceiling_eq_iff)
  with assms(2) have "binade x = - 1"
    by (simp add: binade_def compute_bitlen)
  then show ?thesis by (simp add: ulp_def)
qed

text \<open>The largest double below 1 is \<open>1 - 2^-53\<close>.\<close>

lemma double_below_one:
  assumes "0 \<le> x" and "x < 1" and "round_to_double x = x"
  shows "x \<le> 1 - 1 / 2 ^ 53"
proof (cases "1 / 2 \<le> x")
  case False
  then have "x \<le> 1 / 2" by simp
  also have "(1 / 2 :: real) \<le> 1 - 1 / 2 ^ 53" by simp
  finally show ?thesis .
next
  case True
  let ?N = "round_half_even (x * 2 ^ 53)"
  have x: "x = of_int ?N / 2 ^ 53"
    using round_to_double_unfold [OF assms(1) ulp_half [OF True assms(2)]] assms(3)
    by simp
  with assms(2) have "of_int ?N / (2 ^ 53 :: real) < 1" by simp
  then have "(of_int ?N :: real) < 2 ^ 53" by simp
  then have "?N < 2 ^ 53" by (simp only: of_int_less_numeral_power_cancel_iff)
  then have "?N \<le> 2 ^ 53 - 1" by simp
  then have "(of_int ?N :: real) \<le> of_int (2 ^ 53 - 1)" by (simp only: of_int_le_iff)
  then have "(of_int ?N :: real) \<le> 2 ^ 53 - 1" by simp
  then have "of_int ?N / (2 ^ 53 :: real) \<le> (2 ^ 53 - 1) / 2 ^ 53"
    by (rule divide_right_mono) simp
  also have "((2 ^ 53 - 1) / 2 ^ 53 :: real) = 1 - 1 / 2 ^ 53" by simp
  finally show ?thesis using x by simp
qed

section \<open>The generated latency\<close>

text \<open>
  The double nearest to \<open>x * 500\<close> differs from it by at most \<open>2^-45\<close>, half the spacing
  of the doubles below 512, and a double below 1 is at most \<open>1 - 2^-53\<close>: rounding
  cannot lift the product to 500.
\<close>

lemma rounded_product_range:
  fixes x y :: real
  assumes "x \<le> 1 - 1 / 2 ^ 53" and "\<bar>y - x * 500\<bar> \<le> 1 / 2 ^ 45" and "0 \<le> y"
  shows "0 \<le> \<lfloor>y\<rfloor> \<and> \<lfloor>y\<rfloor> \<le> 499"
proof -
  from assms(1) have "x * 500 \<le> 500 - 500 / 2 ^ 53" by simp
  moreover from assms(2) have "y \<le> x * 500 + 1 / 2 ^ 45" by linarith
  ultimately have "y \<le> 500 - 500 / 2 ^ 53 + 1 / 2 ^ 45" by linarith
  also have "\<dots> < (500 :: real)" by simp
  finally have "\<lfloor>y\<rfloor> < 500" by (simp add: floor_less_iff)
  moreover from assms(3) have "0 \<le> \<lfloor>y\<rfloor>" by simp
  ultimately show ?thesis by simp
qed

lemma floor_product_range:
  assumes "0 \<le> x" and "x \<le> 1 - 1 / 2 ^ 53"
  shows "0 \<le> \<lfloor>round_to_double (x * 500)\<rfloor> \<and> \<lfloor>round_to_double (x * 500)\<rfloor> \<le> 499"
proof (rule rounded_product_range [OF assms(2)])
  from assms have y0: "0 \<le> x * 500" and "x * 500 \<le> 500 - 500 / 2 ^ 53" by simp_all
  then have y2: "x * 500 < 512" by simp
  show "\<bar>round_to_double (x * 500) - x * 500\<bar> \<le> 1 / 2 ^ 45"
    by (rule round_to_double_error [OF y0 y2])
  show "0 \<le> round_to_double (x * 500)"
    by (rule round_to_double_nonneg [OF y0])
qed

text \<open>
  The floor of the rounded product is the floor of the exact product, or one more
  where the exact product is within \<open>2^-45\<close> below an integer.
\<close>

lemma floor_rounded_near:
  assumes "0 \<le> y" and "y < 511"
  shows "\<lfloor>round_to_double y\<rfloor> = \<lfloor>y\<rfloor>
         \<or> (\<lfloor>round_to_double y\<rfloor> = \<lfloor>y\<rfloor> + 1 \<and> of_int (\<lfloor>y\<rfloor> + 1) - y \<le> 1 / 2 ^ 45)"
proof -
  from assms have y512: "y < 512" by simp
  have "of_int \<lfloor>y\<rfloor> \<le> y" by simp
  then have lo: "of_int \<lfloor>y\<rfloor> \<le> round_to_double y"
    by (rule round_to_double_ge_int [OF assms(1) y512])
  have "y \<le> of_int (\<lfloor>y\<rfloor> + 1)" by linarith
  then have hi: "round_to_double y \<le> of_int (\<lfloor>y\<rfloor> + 1)"
    by (rule round_to_double_le_int [OF assms(1) y512])
  from lo have flo: "\<lfloor>y\<rfloor> \<le> \<lfloor>round_to_double y\<rfloor>" by (simp add: le_floor_iff)
  from hi have fhi: "\<lfloor>round_to_double y\<rfloor> \<le> \<lfloor>y\<rfloor> + 1"
    by (metis floor_mono floor_of_int)
  show ?thesis
  proof (cases "\<lfloor>round_to_double y\<rfloor> = \<lfloor>y\<rfloor>")
    case True
    then show ?thesis by simp
  next
    case False
    with flo fhi have eq: "\<lfloor>round_to_double y\<rfloor> = \<lfloor>y\<rfloor> + 1" by simp
    then have "of_int (\<lfloor>y\<rfloor> + 1) \<le> round_to_double y"
      by (metis of_int_floor_le)
    moreover from round_to_double_error [OF assms(1) y512]
    have "round_to_double y - y \<le> 1 / 2 ^ 45" by linarith
    ultimately have "of_int (\<lfloor>y\<rfloor> + 1) - y \<le> 1 / 2 ^ 45" by linarith
    with eq show ?thesis by simp
  qed
qed

text \<open>Every integer from 200 to 699 is the latency of some double in \<open>[0, 1)\<close>.\<close>

lemma every_latency_occurs:
  assumes "200 \<le> v" and "v \<le> 699"
  shows "\<exists>x. 0 \<le> x \<and> x < 1 \<and> round_to_double x = x \<and> latency x = of_int v"
proof -
  define n where "n = v - 200"
  define N where "N = \<lceil>of_int n * 1024 / (500 :: real)\<rceil>"
  define x where "x = (of_int N :: real) / 1024"
  from assms have n: "0 \<le> n" "n \<le> 499" by (simp_all add: n_def)
  have N1: "of_int n * 1024 / 500 \<le> (of_int N :: real)"
    unfolding N_def by (rule le_of_int_ceiling)
  have N2: "(of_int N :: real) < of_int n * 1024 / 500 + 1"
    unfolding N_def by linarith
  from n N1 have N0: "0 \<le> (of_int N :: real)"
    by (smt (verit) divide_nonneg_nonneg of_int_0_le_iff mult_nonneg_nonneg)
  from n(2) have "(of_int n :: real) \<le> 499" by simp
  with N2 have Nlt: "(of_int N :: real) < 1023" by simp
  have x0: "0 \<le> x" using N0 by (simp add: x_def)
  have x1: "x < 1" using Nlt by (simp add: x_def)
  have xd: "round_to_double x = x"
  proof (rule round_to_double_exact [OF x0])
    show "x < 512" using x1 by simp
    show "x = of_int (N * 2 ^ 34) / 2 ^ 44" by (simp add: x_def)
  qed
  have y0: "0 \<le> x * 500" using x0 by simp
  have y1: "x * 500 < 512" using x1 by simp
  have yd: "round_to_double (x * 500) = x * 500"
  proof (rule round_to_double_exact [OF y0 y1])
    show "x * 500 = of_int (N * 125 * 2 ^ 36) / 2 ^ 44" by (simp add: x_def)
  qed
  have "of_int n \<le> x * 500" using N1 by (simp add: x_def)
  moreover have "x * 500 < of_int n + 1" using N2 by (simp add: x_def)
  ultimately have "\<lfloor>x * 500\<rfloor> = n" by (simp add: floor_eq_iff)
  then have "latency x = of_int v"
    by (simp add: latency_def yd n_def)
  with x0 x1 xd show ?thesis by blast
qed

lemmas double_eval =
  round_to_double_def ulp_def binade_def round_half_even_def compute_bitlen Let_def

lemma sample_random_is_double: "round_to_double (Math_random sample_env) = Math_random sample_env"
  by (simp add: sample_env_def double_eval)

lemma sample_latency: "\<lfloor>round_to_double (Math_random sample_env * 500)\<rfloor> + 200 = 450"
  by (simp add: sample_env_def double_eval)

section \<open>The lifecycle of a submit\<close>





text \<open>
  A submit of the example input whose image the QR service then fails to deliver: the
  page stays in Success, no error is set, the card still shows the image URL and the
  only notification is the one of success.
\<close>

theorem failed_service_request_goes_unnoticed:
  "request_state
     (run [Change_url (js ''https://example.com''),
           Change_prompt (js ''A city view with clouds''),
           Submit_click sample_env, Timer_fires, Image_error] initial)
     = Success (mockResponse sample_env (js ''https%3A%2F%2Fexample.com''))
   \<and> error
       (run [Change_url (js ''https://example.com''),
             Change_prompt (js ''A city view with clouds''),
             Submit_click sample_env, Timer_fires, Image_error] initial) = None
   \<and> QrCard_imageURL
       (run [Change_url (js ''https://example.com''),
             Change_prompt (js ''A city view with clouds''),
             Submit_click sample_env, Timer_fires, Image_error] initial)
       = Some (qr_endpoint @ js ''https%3A%2F%2Fexample.com'')
   \<and> toasts
       (run [Change_url (js ''https://example.com''),
             Change_prompt (js ''A city view with clouds''),
             Submit_click sample_env, Timer_fires, Image_error] initial)
       = [Toast_success generated_message]"
proof -
  have "run [Change_url (js ''https://example.com''),
             Change_prompt (js ''A city view with clouds''),
             Submit_click sample_env, Timer_fires, Image_error] initial
        = run [Change_url (js ''https://example.com''),
               Change_prompt (js ''A city view with clouds''),
               Submit_click sample_env, Timer_fires] initial"
    by simp
  then have r: "run [Change_url (js ''https://example.com''),
             Change_prompt (js ''A city view with clouds''),
             Submit_click sample_env, Timer_fires, Image_error] initial
        = initial\<lparr>form_values := \<lparr>url = js ''https://example.com'',
                                      prompt = js ''A city view with clouds''\<rparr>,
                  form_isValid := True,
                  response := Some (mockResponse sample_env (js ''https%3A%2F%2Fexample.com'')),
                  submittedURL := Some (js ''https://example.com''),
                  toasts := [Toast_success generated_message]\<rparr>"
    by (simp only: run_submit(2) [OF valid_example encode_example])
  have img: "image_url (mockResponse sample_env (js ''https%3A%2F%2Fexample.com''))
             = qr_endpoint @ js ''https%3A%2F%2Fexample.com''"
    by (simp add: mockResponse_def)
  show ?thesis
    unfolding r
    by (simp add: request_state_simps QrCard_imageURL_def img initial_def)
qed

text \<open>
  C4, as the code has it. When \<open>encodeURIComponent\<close> throws in the \<open>try\<close> block of
  \<open>handleSubmit\<close> (the url has an unpaired surrogate), the call commits one state and is
  over: the page is in Failed with the fixed message, which is not empty; the response,
  whatever it was before, is cleared and no card is rendered; no continuation is left
  and nothing new is pending, so nothing is tried again. A failure of the request to
  the QR service changes nothing on the page.
\<close>

theorem thrown_submit_fails_and_clears:
  assumes "encodeURIComponent (url data) = Inl err"
  shows "handleSubmit env data p =
           [p\<lparr>isLoading := False, error := Some failed_message, response := None,
              toasts := toasts p @ [Toast_error failed_message]\<rparr>]
       \<and> request_state (last (handleSubmit env data p)) = Failed failed_message
       \<and> failed_message \<noteq> []
       \<and> response (last (handleSubmit env data p)) = None
       \<and> QrCard_imageURL (last (handleSubmit env data p)) = None
       \<and> snd (handleSubmit_sync env data p) = None
       \<and> pending (last (handleSubmit env data p)) = pending p
       \<and> step Image_error p = p"
proof -
  have hs: "handleSubmit env data p =
           [p\<lparr>isLoading := False, error := Some failed_message, response := None,
              toasts := toasts p @ [Toast_error failed_message]\<rparr>]"
    by (rule handleSubmit_throws [OF assms])
  have ne: "failed_message \<noteq> []"
    by (simp add: failed_message_def js_def)
  show ?thesis
    using ne
    by (simp add: hs handleSubmit_sync_throws [OF assms] request_state_simps QrCard_imageURL_def)
qed

text \<open>
  A page that shows a stored code, resubmitted with a url that is a lone lead surrogate.
\<close>

theorem thrown_submit_fails_and_clears_witness:
  "encodeURIComponent (url \<lparr>url = [0xD800], prompt = js ''A saharan desert''\<rparr>) = Inl URIError
   \<and> response (mount sample_props) \<noteq> None
   \<and> request_state
        (last (handleSubmit sample_env \<lparr>url = [0xD800], prompt = js ''A saharan desert''\<rparr>
                 (mount sample_props))) = Failed failed_message
   \<and> response
        (last (handleSubmit sample_env \<lparr>url = [0xD800], prompt = js ''A saharan desert''\<rparr>
                 (mount sample_props))) = None"
proof -
  have enc: "encodeURIComponent (url \<lparr>url = [0xD800], prompt = js ''A saharan desert''\<rparr>)
             = Inl URIError"
    using encode_lone_lead by simp
  have prev: "response (mount sample_props) \<noteq> None"
    by (simp add: mount_sample_props)
  from thrown_submit_fails_and_clears [OF enc, of sample_env "mount sample_props"]
  have "request_state
        (last (handleSubmit sample_env \<lparr>url = [0xD800], prompt = js ''A saharan desert''\<rparr>
                 (mount sample_props))) = Failed failed_message"
    and "response
        (last (handleSubmit sample_env \<lparr>url = [0xD800], prompt = js ''A saharan desert''\<rparr>
                 (mount sample_props))) = None"
    by blast+
  with enc prev show ?thesis by (intro conjI)
qed

text \<open>
  C5. The input with url \<open>https://example.com\<close> and prompt \<open>A city view with clouds\<close> is
  valid; submitting it commits Loading and then Success with a response whose image URL
  is the endpoint of the QR service followed by \<open>https%3A%2F%2Fexample.com\<close>, which is
  a well-formed URL, and whose latency is a positive integer, for every first random
  number in \<open>[0, 1)\<close>. The same holds when the input is typed into the empty form, the
  button is clicked and the timer fires.
\<close>

theorem example_round_trip:
  assumes "0 \<le> Math_random env" and "Math_random env < 1"
  shows "generateFormSchema
           \<lparr>url = js ''https://example.com'', prompt = js ''A city view with clouds''\<rparr> = []
       \<and> (\<exists>r. map request_state
                 (handleSubmit env
                    \<lparr>url = js ''https://example.com'', prompt = js ''A city view with clouds''\<rparr> p)
                 = [Loading, Success r]
              \<and> image_url r = qr_endpoint @ js ''https%3A%2F%2Fexample.com''
              \<and> image_url r =
                  js ''https://api.qrserver.com/v1/create-qr-code/?size=300x300&data=https%3A%2F%2Fexample.com''
              \<and> well_formed_url (image_url r)
              \<and> (\<exists>n::int. 0 < n \<and> model_latency_ms r = of_int n)
              \<and> request_state
                  (run [Change_url (js ''https://example.com''),
                        Change_prompt (js ''A city view with clouds''),
                        Submit_click env] initial) = Loading
              \<and> request_state
                  (run [Change_url (js ''https://example.com''),
                        Change_prompt (js ''A city view with clouds''),
                        Submit_click env, Timer_fires] initial) = Success r)"
proof -
  let ?data = "\<lparr>url = js ''https://example.com'', prompt = js ''A city view with clouds''\<rparr>"
  let ?r = "mockResponse env (js ''https%3A%2F%2Fexample.com'')"
  have enc: "encodeURIComponent (url ?data) = Inr (js ''https%3A%2F%2Fexample.com'')"
    using encode_example by simp
  have trace: "map request_state (handleSubmit env ?data p) = [Loading, Success ?r]"
    by (simp add: handleSubmit_returns [OF enc] request_state_simps)
  have img: "image_url ?r = qr_endpoint @ js ''https%3A%2F%2Fexample.com''"
    by (simp add: mockResponse_def)
  have img': "image_url ?r =
      js ''https://api.qrserver.com/v1/create-qr-code/?size=300x300&data=https%3A%2F%2Fexample.com''"
    by (simp add: mockResponse_def qr_endpoint_def js_def)
  have wf: "well_formed_url (image_url ?r)"
    unfolding img by (rule image_url_well_formed [OF encode_example])
  have lat: "\<exists>n::int. 0 < n \<and> model_latency_ms ?r = of_int n"
  proof (intro exI conjI)
    have "0 \<le> round_to_double (Math_random env * 500)"
      using assms(1) by (intro round_to_double_nonneg) simp
    then have "0 \<le> \<lfloor>round_to_double (Math_random env * 500)\<rfloor>" by simp
    then show "0 < \<lfloor>round_to_double (Math_random env * 500)\<rfloor> + 200" by linarith
    show "model_latency_ms ?r = of_int (\<lfloor>round_to_double (Math_random env * 500)\<rfloor> + 200)"
      by (simp add: mockResponse_def latency_def)
  qed
  have ui1: "request_state
                  (run [Change_url (js ''https://example.com''),
                        Change_prompt (js ''A city view with clouds''),
                        Submit_click env] initial) = Loading"
    by (simp only: run_submit [OF valid_example encode_example])
      (simp add: request_state_simps)
  have ui2: "request_state
                  (run [Change_url (js ''https://example.com''),
                        Change_prompt (js ''A city view with clouds''),
                        Submit_click env, Timer_fires] initial) = Success ?r"
    by (simp only: run_submit [OF valid_example encode_example])
      (simp add: request_state_simps initial_def)
  show ?thesis
    by (intro conjI exI [of _ ?r]) (rule valid_example trace img img' wf lat ui1 ui2)+
qed

theorem example_round_trip_witness:
  "0 \<le> Math_random sample_env \<and> Math_random sample_env < 1
   \<and> generateFormSchema
         \<lparr>url = js ''https://example.com'', prompt = js ''A city view with clouds''\<rparr> = []
   \<and> (\<exists>r. map request_state
             (handleSubmit sample_env
                \<lparr>url = js ''https://example.com'', prompt = js ''A city view with clouds''\<rparr>
                initial)
             = [Loading, Success r]
          \<and> image_url r = qr_endpoint @ js ''https%3A%2F%2Fexample.com''
          \<and> image_url r =
              js ''https://api.qrserver.com/v1/create-qr-code/?size=300x300&data=https%3A%2F%2Fexample.com''
          \<and> well_formed_url (image_url r)
          \<and> (\<exists>n::int. 0 < n \<and> model_latency_ms r = of_int n)
          \<and> request_state
              (run [Change_url (js ''https://example.com''),
                    Change_prompt (js ''A city view with clouds''),
                    Submit_click sample_env] initial) = Loading
          \<and> request_state
              (run [Change_url (js ''https://example.com''),
                    Change_prompt (js ''A city view with clouds''),
                    Submit_click sample_env, Timer_fires] initial) = Success r)"
proof -
  have h1: "0 \<le> Math_random sample_env" and h2: "Math_random sample_env < 1"
    by (simp_all add: sample_env_def)
  note c = example_round_trip [OF h1 h2, of initial]
  show ?thesis
    by (intro conjI h1 h2 conjunct1 [OF c] conjunct2 [OF c])
qed

section \<open>Sharing and suggestions\<close>

text \<open>
  C6. On a page in Success, with a clipboard to write to, one click on the share button
  calls \<open>writeText\<close> exactly once, with the origin of the page followed by \<open>/start/\<close> and
  the id of the response; when the write resolves, that string is the text on the
  clipboard. The lifecycle stage is unchanged.
\<close>

theorem share_writes_link_once:
  assumes "request_state p = Success r" and "clipboard env = Available outcome"
  shows "writeText_calls (share_click env p) =
           writeText_calls p @ [origin env @ js ''/start/'' @ qr_id r]
       \<and> (outcome = Resolves \<longrightarrow>
            clipboard_text (share_click env p) = Some (origin env @ js ''/start/'' @ qr_id r))
       \<and> request_state (share_click env p) = request_state p"
proof -
  from assms(1) have r: "response p = Some r"
    by (simp add: request_state_Success_D)
  have rs: "request_state (share_click env p) = request_state p"
    by (rule request_state_eqI) (simp_all add: share_click_def r handleShare_lifecycle)
  show ?thesis
    using assms(2) rs
    by (cases outcome) (simp_all add: share_click_def r handleShare_cases)
qed

text \<open>The page that shows the stored code \<open>qr-123\<close>, served from \<open>https://qrgpt.io\<close>.\<close>

theorem share_writes_link_once_witness:
  "request_state (mount sample_props) =
     Success \<lparr>image_url = qr_endpoint @ js ''https%3A%2F%2Fexample.com'',
              model_latency_ms = 450, qr_id = js ''qr-123''\<rparr>
   \<and> clipboard \<lparr>origin = js ''https://qrgpt.io'', clipboard = Available Resolves\<rparr>
       = Available Resolves
   \<and> writeText_calls
        (share_click \<lparr>origin = js ''https://qrgpt.io'', clipboard = Available Resolves\<rparr>
           (mount sample_props)) = [js ''https://qrgpt.io/start/qr-123'']
   \<and> clipboard_text
        (share_click \<lparr>origin = js ''https://qrgpt.io'', clipboard = Available Resolves\<rparr>
           (mount sample_props)) = Some (js ''https://qrgpt.io/start/qr-123'')"
proof -
  have h1: "request_state (mount sample_props) =
     Success \<lparr>image_url = qr_endpoint @ js ''https%3A%2F%2Fexample.com'',
              model_latency_ms = 450, qr_id = js ''qr-123''\<rparr>"
    by (simp add: mount_sample_props request_state_simps initial_def)
  have h2: "clipboard \<lparr>origin = js ''https://qrgpt.io'', clipboard = Available Resolves\<rparr>
       = Available Resolves"
    by simp
  have w: "writeText_calls (mount sample_props) = []"
    by (simp add: mount_sample_props initial_def)
  from share_writes_link_once [OF h1 h2] w
  have "writeText_calls
        (share_click \<lparr>origin = js ''https://qrgpt.io'', clipboard = Available Resolves\<rparr>
           (mount sample_props)) = [js ''https://qrgpt.io/start/qr-123'']"
    and "clipboard_text
        (share_click \<lparr>origin = js ''https://qrgpt.io'', clipboard = Available Resolves\<rparr>
           (mount sample_props)) = Some (js ''https://qrgpt.io/start/qr-123'')"
    by (simp_all add: js_def)
  with h1 h2 show ?thesis by (intro conjI)
qed

lemma validate_field_twice:
  "validate_field f (validate_field f p) = validate_field f p"
  by (simp add: validate_field_def Let_def)

text \<open>
  C7. For every string, \<open>handleSuggestionClick\<close> sets the prompt to exactly that string
  and leaves the url alone; \<open>isLoading\<close>, the error and the response, and with them the
  lifecycle stage, are unchanged; nothing becomes pending and no notification is shown,
  so no submit is triggered; and a second click on the same suggestion changes nothing.
\<close>

theorem suggestion_sets_prompt_only:
  "prompt (form_values (handleSuggestionClick s p)) = s
   \<and> url (form_values (handleSuggestionClick s p)) = url (form_values p)
   \<and> request_state (handleSuggestionClick s p) = request_state p
   \<and> isLoading (handleSuggestionClick s p) = isLoading p
   \<and> error (handleSuggestionClick s p) = error p
   \<and> response (handleSuggestionClick s p) = response p
   \<and> pending (handleSuggestionClick s p) = pending p
   \<and> toasts (handleSuggestionClick s p) = toasts p
   \<and> handleSuggestionClick s (handleSuggestionClick s p) = handleSuggestionClick s p"
proof -
  have f: "isLoading (handleSuggestionClick s p) = isLoading p"
          "error (handleSuggestionClick s p) = error p"
          "response (handleSuggestionClick s p) = response p"
    by (simp_all add: handleSuggestionClick_def validate_field_def Let_def)
  have rs: "request_state (handleSuggestionClick s p) = request_state p"
    by (rule request_state_eqI) (rule f)+
  have idem: "handleSuggestionClick s (handleSuggestionClick s p) = handleSuggestionClick s p"
    by (simp add: handleSuggestionClick_def validate_field_def Let_def)
  show ?thesis
    using f rs idem
    by (simp add: handleSuggestionClick_def validate_field_def Let_def)
qed

theorem suggestion_sets_prompt_only_witness:
  "js ''A beautiful glacier'' \<in> set promptSuggestions
   \<and> prompt (form_values (handleSuggestionClick (js ''A beautiful glacier'') initial))
       = js ''A beautiful glacier''
   \<and> request_state (handleSuggestionClick (js ''A beautiful glacier'') initial)
       = request_state initial
   \<and> handleSuggestionClick (js ''A beautiful glacier'')
        (handleSuggestionClick (js ''A beautiful glacier'') initial)
       = handleSuggestionClick (js ''A beautiful glacier'') initial"
proof -
  have m: "js ''A beautiful glacier'' \<in> set promptSuggestions"
    by (simp add: promptSuggestions_def)
  from suggestion_sets_prompt_only [of "js ''A beautiful glacier''" initial]
  have "prompt (form_values (handleSuggestionClick (js ''A beautiful glacier'') initial))
       = js ''A beautiful glacier''"
    and "request_state (handleSuggestionClick (js ''A beautiful glacier'') initial)
       = request_state initial"
    and "handleSuggestionClick (js ''A beautiful glacier'')
        (handleSuggestionClick (js ''A beautiful glacier'') initial)
       = handleSuggestionClick (js ''A beautiful glacier'') initial"
    by blast+
  with m show ?thesis by (intro conjI)
qed

text \<open>
  C8, at a clipboard whose write is rejected: on the page that shows the stored code
  \<open>qr-123\<close>, a click on the share button calls \<open>writeText\<close> once, the text does not reach
  the clipboard, the only notification shown is the one of success, and the rejected
  promise is left unhandled. (Where \<open>navigator.clipboard\<close> is undefined the failure is
  caught and the failure notification is shown; in both cases the lifecycle stage is
  unchanged.)
\<close>

theorem rejected_clipboard_write_reports_success:
  "writeText_calls
     (share_click \<lparr>origin = js ''https://qrgpt.io'', clipboard = Available Rejects\<rparr>
        (mount sample_props)) = [js ''https://qrgpt.io/start/qr-123'']
   \<and> clipboard_text
        (share_click \<lparr>origin = js ''https://qrgpt.io'', clipboard = Available Rejects\<rparr>
           (mount sample_props)) = None
   \<and> toasts
        (share_click \<lparr>origin = js ''https://qrgpt.io'', clipboard = Available Rejects\<rparr>
           (mount sample_props)) = [Toast_success copied_message]
   \<and> unhandled_rejections
        (share_click \<lparr>origin = js ''https://qrgpt.io'', clipboard = Available Rejects\<rparr>
           (mount sample_props)) = 1
   \<and> toasts
        (share_click \<lparr>origin = js ''https://qrgpt.io'', clipboard = Unavailable\<rparr>
           (mount sample_props)) = [Toast_error copy_failed_message]
   \<and> request_state
        (share_click \<lparr>origin = js ''https://qrgpt.io'', clipboard = Available Rejects\<rparr>
           (mount sample_props)) = request_state (mount sample_props)
   \<and> request_state
        (share_click \<lparr>origin = js ''https://qrgpt.io'', clipboard = Unavailable\<rparr>
           (mount sample_props)) = request_state (mount sample_props)"
proof -
  have rs: "request_state (share_click env (mount sample_props))
            = request_state (mount sample_props)" for env
    by (rule request_state_eqI)
      (simp_all add: share_click_def mount_sample_props handleShare_lifecycle)
  show ?thesis
    by (simp add: rs)
      (simp add: share_click_def handleShare_cases mount_sample_props initial_def js_def)
qed

section \<open>How a submit ends, and the latency it reports\<close>

text \<open>
  A valid input whose url ends in a lone trail surrogate: the submit ends in Failed.
\<close>

theorem valid_input_ends_in_failed:
  "generateFormSchema
     \<lparr>url = js ''https://example.com/'' @ [0xDC00], prompt = js ''A saharan desert''\<rparr> = []
   \<and> request_state
        (last (handleSubmit sample_env
                 \<lparr>url = js ''https://example.com/'' @ [0xDC00],
                   prompt = js ''A saharan desert''\<rparr> initial))
       = Failed failed_message"
proof -
  have enc: "encodeURIComponent
               (url \<lparr>url = js ''https://example.com/'' @ [0xDC00],
                     prompt = js ''A saharan desert''\<rparr>) = Inl URIError"
    using encode_lone_trail by simp
  have "request_state
        (last (handleSubmit sample_env
                 \<lparr>url = js ''https://example.com/'' @ [0xDC00],
                   prompt = js ''A saharan desert''\<rparr> initial))
       = Failed failed_message"
    by (simp add: handleSubmit_throws [OF enc] request_state_simps)
  with valid_lone_trail show ?thesis by (rule conjI)
qed

text \<open>
  C9, as the code has it. For every valid input, a call of \<open>handleSubmit\<close> ends in
  Success exactly when the url has no unpaired surrogate, and in Failed exactly when it
  has one: \<open>encodeURIComponent\<close> is the one operation of the \<open>try\<close> block that can throw.
  The call writes nothing to the clipboard and downloads nothing; the image URL is
  built in the handler and the only wait is the timer.
\<close>

theorem submit_ends_in_success_iff_well_formed:
  assumes "generateFormSchema data = []"
  shows "((\<exists>r. request_state (last (handleSubmit env data p)) = Success r)
            \<longleftrightarrow> isWellFormed (url data))
       \<and> ((\<exists>m. request_state (last (handleSubmit env data p)) = Failed m)
            \<longleftrightarrow> \<not> isWellFormed (url data))
       \<and> writeText_calls (last (handleSubmit env data p)) = writeText_calls p
       \<and> downloads (last (handleSubmit env data p)) = downloads p"
proof (cases "encodeURIComponent (url data)")
  case (Inl err)
  then have "\<not> isWellFormed (url data)"
    using encodeURIComponent_returns_iff [of "url data"] by simp
  then show ?thesis
    by (simp add: handleSubmit_throws [OF Inl] request_state_simps)
next
  case (Inr enc)
  then have "isWellFormed (url data)"
    using encodeURIComponent_returns_iff [of "url data"] by simp
  then show ?thesis
    by (simp add: handleSubmit_returns [OF Inr] request_state_simps)
qed

theorem submit_ends_in_success_iff_well_formed_witness:
  "generateFormSchema
     \<lparr>url = js ''https://example.com'', prompt = js ''A city view with clouds''\<rparr> = []
   \<and> isWellFormed (js ''https://example.com'')
   \<and> (\<exists>r. request_state
             (last (handleSubmit sample_env
                \<lparr>url = js ''https://example.com'', prompt = js ''A city view with clouds''\<rparr>
                initial)) = Success r)"
proof -
  have wf: "isWellFormed (js ''https://example.com'')"
    by (simp add: js_def isLead_def isTrail_def)
  from submit_ends_in_success_iff_well_formed [OF valid_example, of sample_env initial] wf
  have "\<exists>r. request_state
             (last (handleSubmit sample_env
                \<lparr>url = js ''https://example.com'', prompt = js ''A city view with clouds''\<rparr>
                initial)) = Success r"
    by simp
  with valid_example wf show ?thesis by (intro conjI)
qed

text \<open>
  A latency drawn exactly uniformly would be \<open>floor (x * 500) + 200\<close> of the random
  number \<open>x\<close> in exact arithmetic, each value for the draws of an interval of length
  \<open>1 / 500\<close>. The double nearest to 0.24 lies below 0.24, in the interval of 319; the
  product with 500 rounds to the double 120 and the code reports 320.
\<close>

theorem latency_at_nearest_double_to_0_24:
  "round_to_double (1080863910568919 / 2 ^ 52) = 1080863910568919 / 2 ^ 52
   \<and> (0 :: real) \<le> 1080863910568919 / 2 ^ 52
   \<and> (1080863910568919 / 2 ^ 52 :: real) < 1
   \<and> (319 - 200) / 500 \<le> (1080863910568919 / 2 ^ 52 :: real)
   \<and> (1080863910568919 / 2 ^ 52 :: real) < (320 - 200) / 500
   \<and> \<lfloor>(1080863910568919 / 2 ^ 52 :: real) * 500\<rfloor> + 200 = 319
   \<and> round_to_double (1080863910568919 / 2 ^ 52 * 500) = 120
   \<and> latency (1080863910568919 / 2 ^ 52) = 320"
proof -
  have 1: "round_to_double (1080863910568919 / 2 ^ 52) = 1080863910568919 / 2 ^ 52"
    by (simp add: double_eval)
  have 2: "round_to_double (1080863910568919 / 2 ^ 52 * 500) = 120"
    by (simp add: double_eval)
  have 3: "latency (1080863910568919 / 2 ^ 52) = 320"
    unfolding latency_def 2 by simp
  show ?thesis
    by (intro conjI) (rule 1 2 3 | simp)+
qed

text \<open>
  C10, as the code has it. For a first random number \<open>x\<close> that is a double in \<open>[0, 1)\<close>,
  a submit that reaches Success reports the latency \<open>floor (x * 500) + 200\<close> with the
  product rounded to a double: an integer from 200 to 699, computed from the random
  number alone (not from the input, the page, the clock or the time the call took). It
  is the value of exact arithmetic, or one more where \<open>x * 500\<close> is within \<open>2^-45\<close> below
  an integer. Every integer from 200 to 699 is reported for some double in \<open>[0, 1)\<close>.
\<close>

theorem latency_is_a_local_draw:
  assumes "0 \<le> Math_random env" and "Math_random env < 1"
      and "round_to_double (Math_random env) = Math_random env"
      and "encodeURIComponent (url data) = Inr enc"
  shows "(\<exists>r. map request_state (handleSubmit env data p) = [Loading, Success r]
            \<and> model_latency_ms r
                = of_int (\<lfloor>round_to_double (Math_random env * 500)\<rfloor> + 200)
            \<and> 200 \<le> \<lfloor>round_to_double (Math_random env * 500)\<rfloor> + 200
            \<and> \<lfloor>round_to_double (Math_random env * 500)\<rfloor> + 200 \<le> 699
            \<and> (\<lfloor>round_to_double (Math_random env * 500)\<rfloor> = \<lfloor>Math_random env * 500\<rfloor>
               \<or> (\<lfloor>round_to_double (Math_random env * 500)\<rfloor> = \<lfloor>Math_random env * 500\<rfloor> + 1
                  \<and> of_int (\<lfloor>Math_random env * 500\<rfloor> + 1) - Math_random env * 500
                      \<le> 1 / 2 ^ 45)))
       \<and> (\<forall>v::int. 200 \<le> v \<and> v \<le> 699 \<longrightarrow>
             (\<exists>x. 0 \<le> x \<and> x < 1 \<and> round_to_double x = x \<and> latency x = of_int v))"
proof -
  let ?r = "mockResponse env enc"
  let ?x = "Math_random env"
  have trace: "map request_state (handleSubmit env data p) = [Loading, Success ?r]"
    by (simp add: handleSubmit_returns [OF assms(4)] request_state_simps)
  have lat: "model_latency_ms ?r = of_int (\<lfloor>round_to_double (?x * 500)\<rfloor> + 200)"
    by (simp add: mockResponse_def latency_def)
  have top: "?x \<le> 1 - 1 / 2 ^ 53"
    by (rule double_below_one [OF assms(1,2,3)])
  have rng: "200 \<le> \<lfloor>round_to_double (?x * 500)\<rfloor> + 200"
            "\<lfloor>round_to_double (?x * 500)\<rfloor> + 200 \<le> 699"
    using floor_product_range [OF assms(1) top] by linarith+
  have near: "\<lfloor>round_to_double (?x * 500)\<rfloor> = \<lfloor>?x * 500\<rfloor>
               \<or> (\<lfloor>round_to_double (?x * 500)\<rfloor> = \<lfloor>?x * 500\<rfloor> + 1
                  \<and> of_int (\<lfloor>?x * 500\<rfloor> + 1) - ?x * 500 \<le> 1 / 2 ^ 45)"
    using assms(1,2) by (intro floor_rounded_near) simp_all
  have 1: "\<exists>r. map request_state (handleSubmit env data p) = [Loading, Success r]
            \<and> model_latency_ms r = of_int (\<lfloor>round_to_double (?x * 500)\<rfloor> + 200)
            \<and> 200 \<le> \<lfloor>round_to_double (?x * 500)\<rfloor> + 200
            \<and> \<lfloor>round_to_double (?x * 500)\<rfloor> + 200 \<le> 699
            \<and> (\<lfloor>round_to_double (?x * 500)\<rfloor> = \<lfloor>?x * 500\<rfloor>
               \<or> (\<lfloor>round_to_double (?x * 500)\<rfloor> = \<lfloor>?x * 500\<rfloor> + 1
                  \<and> of_int (\<lfloor>?x * 500\<rfloor> + 1) - ?x * 500 \<le> 1 / 2 ^ 45))"
    by (intro exI [of _ ?r] conjI) (rule trace lat rng near)+
  have 2: "\<forall>v::int. 200 \<le> v \<and> v \<le> 699 \<longrightarrow>
             (\<exists>x. 0 \<le> x \<and> x < 1 \<and> round_to_double x = x \<and> latency x = of_int v)"
    using every_latency_occurs by blast
  from 1 2 show ?thesis by (rule conjI)
qed

text \<open>A first random number of one half gives a latency of 450.\<close>

theorem latency_is_a_local_draw_witness:
  "0 \<le> Math_random sample_env \<and> Math_random sample_env < 1
   \<and> round_to_double (Math_random sample_env) = Math_random sample_env
   \<and> encodeURIComponent
       (url \<lparr>url = js ''https://example.com'', prompt = js ''A city view with clouds''\<rparr>)
       = Inr (js ''https%3A%2F%2Fexample.com'')
   \<and> (\<exists>r. map request_state
             (handleSubmit sample_env
                \<lparr>url = js ''https://example.com'', prompt = js ''A city view with clouds''\<rparr>
                initial) = [Loading, Success r]
          \<and> model_latency_ms r = 450)"
proof -
  have h1: "0 \<le> Math_random sample_env" and h2: "Math_random sample_env < 1"
    by (simp_all add: sample_env_def)
  note h3 = sample_random_is_double
  have h4: "encodeURIComponent
       (url \<lparr>url = js ''https://example.com'', prompt = js ''A city view with clouds''\<rparr>)
       = Inr (js ''https%3A%2F%2Fexample.com'')"
    using encode_example by simp
  from latency_is_a_local_draw [OF h1 h2 h3 h4, of initial]
  have "\<exists>r. map request_state
             (handleSubmit sample_env
                \<lparr>url = js ''https://example.com'', prompt = js ''A city view with clouds''\<rparr>
                initial) = [Loading, Success r]
          \<and> model_latency_ms r = 450"
    unfolding sample_latency by auto
  with h1 h2 h3 h4 show ?thesis by (intro conjI)
qed

end
